theory Spec2Isabelle
  imports Complex_Main
begin

section \<open>Values shared by the models and the routes\<close>

text \<open>
  An ObjectId is an opaque key; an instant is what \<^verbatim>\<open>Date.getTime()\<close> returns,
  milliseconds since the epoch.
\<close>

type_synonym oid = nat
type_synonym instant = int

datatype js_error =
    Error string
  | TypeError
  | ValidationError
  | DuplicateKey
  | StorageError

section \<open>JavaScript numbers\<close>

text \<open>
  A number of the source is an IEEE 754 double: a finite value, one of the two
  infinities, or \<^verbatim>\<open>NaN\<close>.  A finite double other than the negative zero is given by the
  real number it stands for, so that \<open>Finite 0\<close> is \<open>+0\<close>.

  An operation on doubles is the operation on the reals, followed by rounding to the
  nearest double, ties to the even significand: \<open>binade x\<close> is the exponent of the
  binade of \<open>x\<close>, not below that of the subnormal numbers, the doubles of a binade are
  \<open>2 powr (binade x - 52)\<close> apart, a result that rounds to \<open>2 ^ 1024\<close> or beyond is an
  infinity, and one that rounds to zero is the zero of its sign.  The sign of a product
  or quotient is the product of the signs of its operands; a sum that is exactly zero
  is \<open>+0\<close>, unless both summands are \<open>-0\<close>.
\<close>

datatype js_number = Finite real | NegZero | PosInfinity | NegInfinity | NaN

definition round_half_even :: "real \<Rightarrow> int" where
  "round_half_even r =
     (let f = \<lfloor>r\<rfloor>
      in if r - of_int f < 1 / 2 then f
         else if 1 / 2 < r - of_int f then f + 1
         else if even f then f else f + 1)"

definition binade :: "real \<Rightarrow> int" where
  "binade x = max \<lfloor>log 2 \<bar>x\<bar>\<rfloor> (- 1022)"

definition signed_zero :: "bool \<Rightarrow> js_number" where
  "signed_zero negative = (if negative then NegZero else Finite 0)"

definition signed_infinity :: "bool \<Rightarrow> js_number" where
  "signed_infinity negative = (if negative then NegInfinity else PosInfinity)"

definition round_to_double :: "real \<Rightarrow> js_number" where
  \<comment> \<open>the double of a real that is not zero\<close>
  "round_to_double x =
     (let ulp = 2 powr (of_int (binade x) - 52);
          y = of_int (round_half_even (x / ulp)) * ulp
      in if 2 ^ 1024 \<le> \<bar>y\<bar> then signed_infinity (x < 0)
         else if y = 0 then signed_zero (x < 0)
         else Finite y)"

fun is_zero :: "js_number \<Rightarrow> bool" where
  "is_zero (Finite x) = (x = 0)"
| "is_zero NegZero = True"
| "is_zero x = False"

fun is_negative :: "js_number \<Rightarrow> bool" where
  \<comment> \<open>the sign bit of a number that is not \<^verbatim>\<open>NaN\<close>\<close>
  "is_negative (Finite x) = (x < 0)"
| "is_negative NegZero = True"
| "is_negative NegInfinity = True"
| "is_negative x = False"

fun js_add :: "js_number \<Rightarrow> js_number \<Rightarrow> js_number" where
  "js_add NaN y = NaN"
| "js_add x NaN = NaN"
| "js_add NegZero y = y"
| "js_add x NegZero = x"
| "js_add (Finite x) (Finite y) = (if x + y = 0 then Finite 0 else round_to_double (x + y))"
| "js_add (Finite x) PosInfinity = PosInfinity"
| "js_add (Finite x) NegInfinity = NegInfinity"
| "js_add PosInfinity (Finite y) = PosInfinity"
| "js_add PosInfinity PosInfinity = PosInfinity"
| "js_add PosInfinity NegInfinity = NaN"
| "js_add NegInfinity (Finite y) = NegInfinity"
| "js_add NegInfinity PosInfinity = NaN"
| "js_add NegInfinity NegInfinity = NegInfinity"

fun js_mul :: "js_number \<Rightarrow> js_number \<Rightarrow> js_number" where
  "js_mul NaN y = NaN"
| "js_mul x NaN = NaN"
| "js_mul (Finite x) (Finite y) =
     (if x = 0 \<or> y = 0 then signed_zero (x < 0 \<or> y < 0) else round_to_double (x * y))"
| "js_mul x y =
     (if is_zero x \<or> is_zero y
      then (if x \<in> {PosInfinity, NegInfinity} \<or> y \<in> {PosInfinity, NegInfinity} then NaN
            else signed_zero (is_negative x \<noteq> is_negative y))
      else signed_infinity (is_negative x \<noteq> is_negative y))"

fun js_div :: "js_number \<Rightarrow> js_number \<Rightarrow> js_number" where
  "js_div NaN y = NaN"
| "js_div x NaN = NaN"
| "js_div (Finite x) (Finite y) =
     (if y = 0 then (if x = 0 then NaN else signed_infinity (x < 0))
      else if x = 0 then signed_zero (y < 0)
      else round_to_double (x / y))"
| "js_div x y =
     (if x \<in> {PosInfinity, NegInfinity}
      then (if y \<in> {PosInfinity, NegInfinity} then NaN
            else signed_infinity (is_negative x \<noteq> is_negative y))
      else if y \<in> {PosInfinity, NegInfinity} then signed_zero (is_negative x \<noteq> is_negative y)
      else if is_zero y
           then (if is_zero x then NaN else signed_infinity (is_negative x \<noteq> is_negative y))
           else signed_zero (is_negative x \<noteq> is_negative y))"

fun Math_sqrt :: "js_number \<Rightarrow> js_number" where
  "Math_sqrt (Finite x) =
     (if x < 0 then NaN else if x = 0 then Finite 0 else round_to_double (sqrt x))"
| "Math_sqrt NegZero = NegZero"
| "Math_sqrt PosInfinity = PosInfinity"
| "Math_sqrt NegInfinity = NaN"
| "Math_sqrt NaN = NaN"

text \<open>
  The comparisons do not tell the two zeros apart: \<open>magnitude\<close> reads both as \<open>0\<close>.
\<close>

fun magnitude :: "js_number \<Rightarrow> js_number" where
  "magnitude NegZero = Finite 0"
| "magnitude x = x"

fun js_equals :: "js_number \<Rightarrow> js_number \<Rightarrow> bool" where
  \<comment> \<open>\<^verbatim>\<open>===\<close> on two numbers, which is also their \<^verbatim>\<open>==\<close>: \<^verbatim>\<open>NaN\<close> equals nothing\<close>
  "js_equals NaN y = False"
| "js_equals x NaN = False"
| "js_equals x y = (magnitude x = magnitude y)"

fun number_less :: "js_number \<Rightarrow> js_number \<Rightarrow> bool" where
  "number_less (Finite x) (Finite y) = (x < y)"
| "number_less (Finite x) PosInfinity = True"
| "number_less NegInfinity (Finite y) = True"
| "number_less NegInfinity PosInfinity = True"
| "number_less x y = False"

definition js_number_less :: "js_number \<Rightarrow> js_number \<Rightarrow> bool" where
  \<comment> \<open>\<^verbatim>\<open><\<close> on two numbers: false when either is \<^verbatim>\<open>NaN\<close>\<close>
  "js_number_less x y = number_less (magnitude x) (magnitude y)"

definition js_number_geq :: "js_number \<Rightarrow> js_number \<Rightarrow> bool" where
  \<comment> \<open>\<^verbatim>\<open>>=\<close> on two numbers: false when either is \<^verbatim>\<open>NaN\<close>, the negation of \<^verbatim>\<open><\<close>
      otherwise\<close>
  "js_number_geq x y = (x \<noteq> NaN \<and> y \<noteq> NaN \<and> \<not> js_number_less x y)"

text \<open>The doubles that the literals \<^verbatim>\<open>0.6\<close> and \<^verbatim>\<open>0.8\<close> of the source denote.\<close>

definition double_0_6 :: real where
  "double_0_6 = 5404319552844595 / 9007199254740992"

definition double_0_8 :: real where
  "double_0_8 = 7205759403792794 / 9007199254740992"

section \<open>Face comparison: \<^verbatim>\<open>calculateCosineSimilarity\<close>\<close>

text \<open>
  The \<^verbatim>\<open>for\<close> loop of the helper, with its three accumulators; \<open>i\<close> is the loop
  index and the bound is \<^verbatim>\<open>embedding1.length\<close>.  An entry of an embedding is the
  number that \<^verbatim>\<open>*\<close> reads of it; the entries are read by \<^verbatim>\<open>*\<close> only.
\<close>

function cosine_loop ::
  "js_number list \<Rightarrow> js_number list \<Rightarrow> nat \<Rightarrow> js_number \<times> js_number \<times> js_number \<Rightarrow>
   js_number \<times> js_number \<times> js_number" where
  "cosine_loop embedding1 embedding2 i (dotProduct, norm1, norm2) =
     (if i < length embedding1
      then cosine_loop embedding1 embedding2 (Suc i)
             (js_add dotProduct (js_mul (embedding1 ! i) (embedding2 ! i)),
              js_add norm1 (js_mul (embedding1 ! i) (embedding1 ! i)),
              js_add norm2 (js_mul (embedding2 ! i) (embedding2 ! i)))
      else (dotProduct, norm1, norm2))"
  by pat_completeness auto
termination
  by (relation "measure (\<lambda>(e1, e2, i, acc). length e1 - i)") auto

declare cosine_loop.simps [simp del]

definition calculateCosineSimilarity ::
  "js_number list \<Rightarrow> js_number list \<Rightarrow> js_error + js_number" where
  "calculateCosineSimilarity embedding1 embedding2 =
     (if length embedding1 \<noteq> length embedding2
      then Inl (Error ''Embeddings must have the same length'')
      else
        (case cosine_loop embedding1 embedding2 0 (Finite 0, Finite 0, Finite 0) of
           (dotProduct, n1, n2) \<Rightarrow>
             (let norm1 = Math_sqrt n1; norm2 = Math_sqrt n2
              in if js_equals norm1 (Finite 0) \<or> js_equals norm2 (Finite 0) then Inr (Finite 0)
                 else Inr (js_div dotProduct (js_mul norm1 norm2)))))"

section \<open>Dates\<close>

text \<open>
  The routes build instants from a calendar date and an \<^verbatim>\<open>HH:MM\<close> string.  A
  calendar date \<^verbatim>\<open>YYYY-MM-DD\<close> is its day number since the epoch, so that
  \<^verbatim>\<open>new Date(date)\<close> is midnight UTC of that day.  A time of day is a string that
  the pattern \<^verbatim>\<open>/^([0-1]?[0-9]|2[0-3]):[0-5][0-9]$/\<close> of the create route admits: its
  two numbers, and whether the hour is written with two digits (\<open>HHMM\<close>, as in
  \<^verbatim>\<open>09:05\<close>) or with one (\<open>HMM\<close>, as in \<^verbatim>\<open>9:05\<close>).  \<open>tz\<close> is the offset of the
  server's local time from UTC in milliseconds, taken as constant.

  A \<^verbatim>\<open>Date\<close> is an instant, or \<^verbatim>\<open>Invalid Date\<close>, which is \<open>None\<close>: its time value is
  \<^verbatim>\<open>NaN\<close> and every comparison with it is false.
\<close>

datatype time_of_day = HHMM (hour: nat) (minute: nat) | HMM (hour: nat) (minute: nat)

definition ms_per_day :: int where
  "ms_per_day = 86400000"

definition ms_per_minute :: int where
  "ms_per_minute = 60000"

definition time_of_day_valid :: "time_of_day \<Rightarrow> bool" where
  \<comment> \<open>\<^verbatim>\<open>/^([0-1]?[0-9]|2[0-3]):[0-5][0-9]$/\<close>\<close>
  "time_of_day_valid t =
     (case t of HHMM h m \<Rightarrow> h \<le> 23 \<and> m \<le> 59 | HMM h m \<Rightarrow> h \<le> 9 \<and> m \<le> 59)"

definition ms_of_time :: "time_of_day \<Rightarrow> int" where
  "ms_of_time t = (int (hour t) * 60 + int (minute t)) * ms_per_minute"

definition utc_day :: "instant \<Rightarrow> int" where
  \<comment> \<open>\<^verbatim>\<open>d.toISOString().split('T')[0]\<close>: the UTC calendar date of an instant\<close>
  "utc_day t = t div ms_per_day"

definition local_date_time :: "int \<Rightarrow> int \<Rightarrow> time_of_day \<Rightarrow> instant" where
  \<comment> \<open>the instant of a time of day on a calendar date, in local time\<close>
  "local_date_time tz day t = day * ms_per_day + ms_of_time t - tz"

definition new_Date :: "int \<Rightarrow> int \<Rightarrow> time_of_day \<Rightarrow> instant option" where
  \<comment> \<open>\<^verbatim>\<open>new Date(`${date}T${time}:00`)\<close>: a date-time without zone is local time; the
      format asks for two digits of the hour, and a string with one is not parsed\<close>
  "new_Date tz day t =
     (case t of
        HHMM h m \<Rightarrow>
          if (h \<le> 23 \<and> m \<le> 59) \<or> (h = 24 \<and> m = 0)
          then Some (local_date_time tz day t) else None
      | HMM h m \<Rightarrow> None)"

text \<open>
  The \<^verbatim>\<open>date\<close> of a create request is a string that \<^verbatim>\<open>isISO8601\<close> admits.  It is a
  calendar date \<^verbatim>\<open>YYYY-MM-DD\<close>, given by its day; or it has another of the forms of the
  standard (a week date, a date with a time, ...), and is then given by what the
  \<^verbatim>\<open>Date\<close> constructor makes of it, alone and followed by \<^verbatim>\<open>T\<close>, a time of day and
  \<^verbatim>\<open>:00\<close>.
\<close>

datatype date_text =
    ISO_date int
  | Other_date "instant option" "time_of_day \<Rightarrow> instant option"

fun Date_of_text :: "date_text \<Rightarrow> instant option" where
  \<comment> \<open>\<^verbatim>\<open>new Date(date)\<close>\<close>
  "Date_of_text (ISO_date day) = Some (day * ms_per_day)"
| "Date_of_text (Other_date d f) = d"

fun Date_of_text_time :: "int \<Rightarrow> date_text \<Rightarrow> time_of_day \<Rightarrow> instant option" where
  \<comment> \<open>\<^verbatim>\<open>new Date(`${date}T${time}:00`)\<close>\<close>
  "Date_of_text_time tz (ISO_date day) t = new_Date tz day t"
| "Date_of_text_time tz (Other_date d f) t = f t"

definition Date_less :: "instant option \<Rightarrow> instant option \<Rightarrow> bool" where
  \<comment> \<open>\<^verbatim>\<open>a < b\<close> on two dates\<close>
  "Date_less a b = (case (a, b) of (Some x, Some y) \<Rightarrow> x < y | _ \<Rightarrow> False)"

definition Date_geq :: "instant option \<Rightarrow> instant option \<Rightarrow> bool" where
  \<comment> \<open>\<^verbatim>\<open>a >= b\<close> on two dates\<close>
  "Date_geq a b = (case (a, b) of (Some x, Some y) \<Rightarrow> x \<ge> y | _ \<Rightarrow> False)"

definition local_midnight :: "int \<Rightarrow> instant \<Rightarrow> instant" where
  \<comment> \<open>\<^verbatim>\<open>d.setHours(0, 0, 0, 0)\<close>\<close>
  "local_midnight tz t = ((t + tz) div ms_per_day) * ms_per_day - tz"

definition setHours :: "int \<Rightarrow> instant \<Rightarrow> time_of_day \<Rightarrow> instant" where
  \<comment> \<open>\<^verbatim>\<open>d.setHours(parseInt(hours), parseInt(minutes), 0, 0)\<close>, the two numbers split
      from the string: \<^verbatim>\<open>parseInt\<close> reads one digit as it reads two\<close>
  "setHours tz t hm = local_midnight tz t + ms_of_time hm"

section \<open>Values of a request body\<close>

text \<open>
  A string is the list of its UTF-16 code units; \<^verbatim>\<open><\<close> on two strings compares them
  unit by unit, a proper prefix being the smaller.
\<close>

type_synonym js_string = "nat list"

definition code_units :: "string \<Rightarrow> js_string" where
  "code_units s = map of_char s"

fun js_string_less :: "js_string \<Rightarrow> js_string \<Rightarrow> bool" where
  "js_string_less [] [] = False"
| "js_string_less [] (y # ys) = True"
| "js_string_less (x # xs) [] = False"
| "js_string_less (x # xs) (y # ys) = (x < y \<or> (x = y \<and> js_string_less xs ys))"

text \<open>
  \<^verbatim>\<open>express-validator\<close> tests a value of the body and leaves it as it was sent, so the
  handler holds the value of the JSON body: a number; a string, given by its code units
  and by the number that \<^verbatim>\<open>Number\<close> converts it to (\<^verbatim>\<open>NaN\<close> when it spells none); or an
  array, given by the string that \<^verbatim>\<open>toString\<close> joins of it, by the number that string
  converts to, and by whether the validator lets the array through (it tests the items,
  the first or all according to its version).  The operators of the handler read
  nothing else of a value.  \<^verbatim>\<open>null\<close>, a boolean and an object fail the validator of the
  one field read in this way and are left out.

  An operand of \<^verbatim>\<open><\<close> or \<^verbatim>\<open>>=\<close> is first made a primitive, a number or a string;
  two strings are compared as strings, and in every other case both operands are
  converted to numbers.
\<close>

datatype body_value =
    JNumber js_number
  | JString js_string js_number
  | JArray bool js_string js_number

datatype js_primitive = PNumber js_number | PString js_string js_number

fun ToPrimitive :: "body_value \<Rightarrow> js_primitive" where
  "ToPrimitive (JNumber n) = PNumber n"
| "ToPrimitive (JString s n) = PString s n"
| "ToPrimitive (JArray passes s n) = PString s n"

fun ToNumber :: "js_primitive \<Rightarrow> js_number" where
  "ToNumber (PNumber n) = n"
| "ToNumber (PString s n) = n"

fun js_less :: "js_primitive \<Rightarrow> js_primitive \<Rightarrow> bool" where
  \<comment> \<open>\<^verbatim>\<open>a < b\<close>\<close>
  "js_less (PString s n) (PString t m) = js_string_less s t"
| "js_less a b = js_number_less (ToNumber a) (ToNumber b)"

fun js_geq :: "js_primitive \<Rightarrow> js_primitive \<Rightarrow> bool" where
  \<comment> \<open>\<^verbatim>\<open>a >= b\<close>\<close>
  "js_geq (PString s n) (PString t m) = (\<not> js_string_less s t)"
| "js_geq a b = js_number_geq (ToNumber a) (ToNumber b)"

fun falsy :: "body_value \<Rightarrow> bool" where
  \<comment> \<open>\<^verbatim>\<open>!v\<close>\<close>
  "falsy (JNumber n) = (is_zero n \<or> n = NaN)"
| "falsy (JString s n) = (s = [])"
| "falsy (JArray passes s n) = False"

text \<open>
  The validator \<^verbatim>\<open>isFloat({ min: 0, max: 1 })\<close>.  A string passes when it matches
  \<^verbatim>\<open>/^(?:[-+])?(?:[0-9]+)?(?:\.[0-9]*)?(?:[eE][\+\-]?(?:[0-9]+))?$/\<close>, is none of the
  strings \<^verbatim>\<open>''\<close>, \<^verbatim>\<open>'.'\<close>, \<^verbatim>\<open>','\<close>, \<^verbatim>\<open>'-'\<close> and \<^verbatim>\<open>'+'\<close>, and the number it spells
  is within the bounds (on a string that matches, \<^verbatim>\<open>parseFloat\<close> and \<^verbatim>\<open>Number\<close> read the
  same number).  A number is tested through the string it prints as, which matches and
  reads back as the number when the number is finite.
\<close>

definition is_digit :: "nat \<Rightarrow> bool" where
  "is_digit c = (48 \<le> c \<and> c \<le> 57)"

definition drop_sign :: "js_string \<Rightarrow> js_string" where
  \<comment> \<open>\<^verbatim>\<open>(?:[-+])?\<close>\<close>
  "drop_sign s = (case s of [] \<Rightarrow> [] | c # r \<Rightarrow> if c = 43 \<or> c = 45 then r else s)"

definition float_pattern :: "js_string \<Rightarrow> bool" where
  "float_pattern s =
     (let s1 = drop_sign s;
          s2 = dropWhile is_digit s1;
          s3 = (case s2 of [] \<Rightarrow> [] | c # r \<Rightarrow> if c = 46 then dropWhile is_digit r else s2)
      in case s3 of
           [] \<Rightarrow> True
         | c # r \<Rightarrow> (c = 101 \<or> c = 69) \<and> drop_sign r \<noteq> [] \<and> list_all is_digit (drop_sign r))"

definition within_unit :: "js_number \<Rightarrow> bool" where
  \<comment> \<open>\<^verbatim>\<open>value >= 0 && value <= 1\<close>, and the \<^verbatim>\<open>min\<close> and \<^verbatim>\<open>max\<close> of a schema path\<close>
  "within_unit n = (js_number_geq n (Finite 0) \<and> js_number_geq (Finite 1) n)"

fun isFloat :: "body_value \<Rightarrow> bool" where
  "isFloat (JNumber n) = within_unit n"
| "isFloat (JString s n) =
     (s \<notin> {[], [46], [44], [45], [43]} \<and> float_pattern s \<and> within_unit n)"
| "isFloat (JArray passes s n) = passes"

section \<open>The Session model\<close>

text \<open>
  The schema of a session, with its defaults (\<open>isActive\<close> true, \<open>maxStudents\<close> 100,
  \<open>attendanceCount\<close> 0) applied where a document is built.  The free-text fields
  \<^verbatim>\<open>description\<close> and \<^verbatim>\<open>location\<close> take part in no check and are left out, as are
  the timestamps.
\<close>

record session_doc =
  session_id :: oid
  subject :: string
  teacher :: oid
  date :: instant
  startTime :: time_of_day
  endTime :: time_of_day
  qrToken :: string
  isActive :: bool
  expiresAt :: instant
  maxStudents :: nat
  attendanceCount :: int

definition isExpired :: "instant \<Rightarrow> session_doc \<Rightarrow> bool" where
  \<comment> \<open>\<^verbatim>\<open>new Date() > this.expiresAt\<close>, the clock reading passed in\<close>
  "isExpired now s = (now > expiresAt s)"

definition isValid :: "instant \<Rightarrow> session_doc \<Rightarrow> bool" where
  "isValid now s = (isActive s \<and> \<not> isExpired now s)"

section \<open>The Attendance model\<close>

datatype status = present | absent | late

datatype att_method = qr_code | face_recognition | manual

text \<open>
  The \<^verbatim>\<open>session\<close> path of an attendance document is a reference: in memory it holds
  the ObjectId it was given, or the session document once \<^verbatim>\<open>populate\<close> has run, or
  nothing.  The collection stores the ObjectId.
\<close>

datatype session_ref = NoSession | SessionId oid | SessionDoc session_doc

fun session_oid :: "session_ref \<Rightarrow> oid option" where
  "session_oid NoSession = None"
| "session_oid (SessionId i) = Some i"
| "session_oid (SessionDoc s) = Some (session_id s)"

text \<open>
  The path \<^verbatim>\<open>faceConfidence\<close> of the schema is a \<^verbatim>\<open>Number\<close>: the value given to the
  constructor is cast when the document is built.  A number is kept, a string is
  converted (the empty string to no value), and an array, or a string that spells no
  number, is a cast error, which the validation of the document reports.
\<close>

datatype cast_number = NotSet | Cast js_number | CastError

fun castNumber :: "body_value \<Rightarrow> cast_number" where
  "castNumber (JNumber n) = (if n = NaN then CastError else Cast n)"
| "castNumber (JString s n) = (if s = [] then NotSet else if n = NaN then CastError else Cast n)"
| "castNumber (JArray passes s n) = CastError"

record attendance_doc =
  attendance_id :: oid
  student :: oid
  session :: session_ref
  status :: status
  markedAt :: instant
  att_method :: att_method
  faceConfidence :: cast_number
  isVerified :: bool

text \<open>
  The virtual \<^verbatim>\<open>isLate\<close>.  It reads \<^verbatim>\<open>this.session.date\<close> and splits
  \<^verbatim>\<open>this.session.startTime\<close>: on a populated session these are the session's fields; on
  an ObjectId both are \<^verbatim>\<open>undefined\<close>, and \<^verbatim>\<open>undefined.split\<close> throws a TypeError.
\<close>

definition isLate :: "int \<Rightarrow> attendance_doc \<Rightarrow> js_error + bool" where
  "isLate tz a =
     (case session a of
        NoSession \<Rightarrow> Inr False
      | SessionId i \<Rightarrow> Inl TypeError
      | SessionDoc s \<Rightarrow>
          (let sessionStart = setHours tz (date s) (startTime s);
               lateThreshold = sessionStart + 15 * ms_per_minute
           in Inr (markedAt a > lateThreshold)))"

definition pre_save :: "int \<Rightarrow> attendance_doc \<Rightarrow> js_error + attendance_doc" where
  \<comment> \<open>the \<^verbatim>\<open>pre('save')\<close> middleware; an exception in it is the error of the save\<close>
  "pre_save tz a =
     (case isLate tz a of
        Inl e \<Rightarrow> Inl e
      | Inr l \<Rightarrow> Inr (if l \<and> status a = present then a\<lparr>status := late\<rparr> else a))"

definition validate_attendance :: "attendance_doc \<Rightarrow> bool" where
  \<comment> \<open>schema validation: \<^verbatim>\<open>session\<close> required, \<^verbatim>\<open>faceConfidence\<close> cast and within
      min 0 and max 1\<close>
  "validate_attendance a =
     (session a \<noteq> NoSession \<and>
      (case faceConfidence a of NotSet \<Rightarrow> True | Cast n \<Rightarrow> within_unit n | CastError \<Rightarrow> False))"

section \<open>The record store\<close>

record db =
  sessions :: "session_doc list"
  attendances :: "attendance_doc list"

definition attendance_key :: "attendance_doc \<Rightarrow> oid \<times> oid option" where
  \<comment> \<open>the key of \<^verbatim>\<open>attendanceSchema.index({ student: 1, session: 1 }, { unique: true })\<close>\<close>
  "attendance_key a = (student a, session_oid (session a))"

definition stored :: "attendance_doc \<Rightarrow> attendance_doc" where
  \<comment> \<open>what the collection keeps of a document: the reference as an ObjectId\<close>
  "stored a =
     a\<lparr>session := (case session_oid (session a) of None \<Rightarrow> NoSession | Some i \<Rightarrow> SessionId i)\<rparr>"

definition Attendance_save ::
  "int \<Rightarrow> bool \<Rightarrow> db \<Rightarrow> attendance_doc \<Rightarrow> (js_error + attendance_doc) \<times> db" where
  \<comment> \<open>\<^verbatim>\<open>await attendance.save()\<close> of a new document: validation, the pre-save
      middleware, then the insert under the unique indexes.  \<open>rejects\<close> is a failure of
      the storage itself.\<close>
  "Attendance_save tz rejects d a =
     (if \<not> validate_attendance a then (Inl ValidationError, d)
      else
        (case pre_save tz a of
           Inl e \<Rightarrow> (Inl e, d)
         | Inr a' \<Rightarrow>
             if rejects then (Inl StorageError, d)
             else if \<exists>b \<in> set (attendances d).
                       attendance_key b = attendance_key a' \<or> attendance_id b = attendance_id a'
             then (Inl DuplicateKey, d)
             else (Inr a', d\<lparr>attendances := attendances d @ [stored a']\<rparr>)))"

definition Attendance_findOne :: "db \<Rightarrow> oid \<Rightarrow> oid \<Rightarrow> attendance_doc option" where
  \<comment> \<open>\<^verbatim>\<open>Attendance.findOne({ student, session })\<close>\<close>
  "Attendance_findOne d stu sid =
     find (\<lambda>a. student a = stu \<and> session_oid (session a) = Some sid) (attendances d)"

definition Attendance_findById :: "db \<Rightarrow> oid \<Rightarrow> attendance_doc option" where
  "Attendance_findById d aid = find (\<lambda>a. attendance_id a = aid) (attendances d)"

definition Session_findOne :: "db \<Rightarrow> oid \<Rightarrow> string \<Rightarrow> session_doc option" where
  \<comment> \<open>\<^verbatim>\<open>Session.findOne({ _id: sessionId, qrToken: token, isActive: true })\<close>\<close>
  "Session_findOne d sid tok =
     find (\<lambda>s. session_id s = sid \<and> qrToken s = tok \<and> isActive s) (sessions d)"

definition Session_findById :: "db \<Rightarrow> oid \<Rightarrow> session_doc option" where
  "Session_findById d sid = find (\<lambda>s. session_id s = sid) (sessions d)"

definition Session_insert :: "db \<Rightarrow> session_doc \<Rightarrow> js_error + db" where
  \<comment> \<open>\<^verbatim>\<open>await session.save()\<close> of a new document; \<^verbatim>\<open>qrToken\<close> is \<^verbatim>\<open>unique: true\<close>\<close>
  "Session_insert d s =
     (if \<exists>s' \<in> set (sessions d). qrToken s' = qrToken s \<or> session_id s' = session_id s
      then Inl DuplicateKey
      else Inr (d\<lparr>sessions := sessions d @ [s]\<rparr>))"

definition Session_set_qrToken :: "db \<Rightarrow> oid \<Rightarrow> string \<Rightarrow> js_error + db" where
  \<comment> \<open>\<^verbatim>\<open>session.qrToken = t; await session.save()\<close> on a loaded document: the
      modified path is written, under the unique index on \<^verbatim>\<open>qrToken\<close>\<close>
  "Session_set_qrToken d sid t =
     (if \<exists>s' \<in> set (sessions d). session_id s' \<noteq> sid \<and> qrToken s' = t
      then Inl DuplicateKey
      else Inr (d\<lparr>sessions :=
                  map (\<lambda>s. if session_id s = sid then s\<lparr>qrToken := t\<rparr> else s) (sessions d)\<rparr>))"

definition Session_inc :: "bool \<Rightarrow> db \<Rightarrow> oid \<Rightarrow> int \<Rightarrow> (js_error + unit) \<times> db" where
  \<comment> \<open>\<^verbatim>\<open>Session.findByIdAndUpdate(id, { $inc: { attendanceCount: n } })\<close>; no document
      with that id is no error\<close>
  "Session_inc rejects d sid n =
     (if rejects then (Inl StorageError, d)
      else (Inr (),
            d\<lparr>sessions :=
                map (\<lambda>s. if session_id s = sid
                          then s\<lparr>attendanceCount := attendanceCount s + n\<rparr> else s)
                    (sessions d)\<rparr>))"

section \<open>Requests, the environment and responses\<close>

datatype user_role = Student | Teacher | Admin

record user =
  user_id :: oid
  role :: user_role
  faceEmbedding :: "js_number list option"

text \<open>
  \<^verbatim>\<open>req.user\<close>, as the handlers read it: the id, the role and the face embedding, which
  may be missing.

  What a handler reads from outside the store: the clock (the \<open>n\<close>-th reading of
  \<^verbatim>\<open>new Date()\<close> or \<^verbatim>\<open>Date.now\<close> in the handler), the zone offset,
  \<^verbatim>\<open>process.env.FACE_RECOGNITION_THRESHOLD\<close> (unset, or a string, given as a string
  of the body is, by its code units and the number it converts to), the values
  \<^verbatim>\<open>uuidv4()\<close> and the ObjectId generator return, and whether the storage rejects each
  of the two writes of the scan route.
\<close>

record env =
  clock1 :: instant
  clock2 :: instant
  clock3 :: instant
  tz :: int
  FACE_RECOGNITION_THRESHOLD :: "(js_string \<times> js_number) option"
  uuid :: string
  new_oid :: oid
  save_rejects :: bool
  inc_rejects :: bool

datatype payload =
    NoPayload
  | AttendancePayload attendance_doc
  | SessionPayload session_doc
  | TokenPayload string

datatype response =
    Errors
  | Reply nat string payload

text \<open>\<^verbatim>\<open>Errors\<close> is the reply \<^verbatim>\<open>res.status(400).json({ errors })\<close> of request validation.\<close>

section \<open>The sessions routes\<close>

text \<open>
  The body of a create request: the subject as trimmed, the date and the two times as
  the strings sent, the capacity as the number it spells.  The handlers are modelled
  from the point where the \<^verbatim>\<open>auth\<close> and \<^verbatim>\<open>authorize\<close> middleware have let the request
  through.

  \<^verbatim>\<open>start >= end\<close> and \<^verbatim>\<open>sessionDate < today\<close> are false when a date in them is
  invalid.  The expiry is computed from \<^verbatim>\<open>end\<close>: when \<^verbatim>\<open>end\<close> is invalid so is the
  expiry.  An invalid date given for the path \<^verbatim>\<open>date\<close> or \<^verbatim>\<open>expiresAt\<close> of the new
  session is a cast error, and the save rejects.
\<close>

record create_request =
  body_subject :: string
  body_date :: date_text
  body_startTime :: time_of_day
  body_endTime :: time_of_day
  body_maxStudents :: "nat option"

definition create_request_valid :: "create_request \<Rightarrow> bool" where
  "create_request_valid req =
     (body_subject req \<noteq> [] \<and>
      time_of_day_valid (body_startTime req) \<and>
      time_of_day_valid (body_endTime req) \<and>
      (case body_maxStudents req of None \<Rightarrow> True | Some n \<Rightarrow> 1 \<le> n))"

definition create_session :: "env \<Rightarrow> db \<Rightarrow> user \<Rightarrow> create_request \<Rightarrow> response \<times> db" where
  "create_session e d u req =
     (if \<not> create_request_valid req then (Errors, d)
      else
        (let maxS = (case body_maxStudents req of None \<Rightarrow> 100 | Some n \<Rightarrow> n);
             start = Date_of_text_time (tz e) (body_date req) (body_startTime req);
             endd = Date_of_text_time (tz e) (body_date req) (body_endTime req)
         in if Date_geq start endd
            then (Reply 400 ''End time must be after start time'' NoPayload, d)
            else
              (let sessionDate = Date_of_text (body_date req);
                   today = local_midnight (tz e) (clock1 e)
               in if Date_less sessionDate (Some today)
                  then (Reply 400 ''Cannot create session for past dates'' NoPayload, d)
                  else
                    (let qrT = uuid e
                     in case (sessionDate, endd) of
                          (Some date_instant, Some end_instant) \<Rightarrow>
                            (let expiryTime = end_instant + 30 * ms_per_minute;
                                 s = \<lparr>session_id = new_oid e,
                                      subject = body_subject req,
                                      teacher = user_id u,
                                      date = date_instant,
                                      startTime = body_startTime req,
                                      endTime = body_endTime req,
                                      qrToken = qrT,
                                      isActive = True,
                                      expiresAt = expiryTime,
                                      maxStudents = maxS,
                                      attendanceCount = 0\<rparr>
                             in case Session_insert d s of
                                  Inl err \<Rightarrow>
                                    (Reply 500 ''Server error during session creation''
                                       NoPayload, d)
                                | Inr d' \<Rightarrow>
                                    (Reply 201 ''Session created successfully''
                                       (SessionPayload s), d'))
                        | _ \<Rightarrow>
                            (Reply 500 ''Server error during session creation'' NoPayload,
                             d)))))"

definition regenerate_qr :: "env \<Rightarrow> db \<Rightarrow> user \<Rightarrow> oid \<Rightarrow> response \<times> db" where
  "regenerate_qr e d u sid =
     (case Session_findById d sid of
        None \<Rightarrow> (Reply 404 ''Session not found'' NoPayload, d)
      | Some s \<Rightarrow>
          if teacher s \<noteq> user_id u then (Reply 403 ''Access denied'' NoPayload, d)
          else
            (let newQrToken = uuid e
             in case Session_set_qrToken d sid newQrToken of
                  Inl err \<Rightarrow>
                    (Reply 500 ''Server error during QR regeneration'' NoPayload, d)
                | Inr d' \<Rightarrow>
                    (Reply 200 ''QR code regenerated successfully'' (TokenPayload newQrToken),
                     d')))"

definition sessionStart :: "int \<Rightarrow> session_doc \<Rightarrow> instant option" where
  \<comment> \<open>\<^verbatim>\<open>new Date(`${session.date.toISOString().split('T')[0]}T${session.startTime}:00`)\<close>\<close>
  "sessionStart z s = new_Date z (utc_day (date s)) (startTime s)"

definition delete_session :: "env \<Rightarrow> db \<Rightarrow> user \<Rightarrow> oid \<Rightarrow> response \<times> db" where
  "delete_session e d u sid =
     (case Session_findById d sid of
        None \<Rightarrow> (Reply 404 ''Session not found'' NoPayload, d)
      | Some s \<Rightarrow>
          if teacher s \<noteq> user_id u then (Reply 403 ''Access denied'' NoPayload, d)
          else if Date_geq (Some (clock1 e)) (sessionStart (tz e) s)
          then (Reply 400 ''Cannot delete session that has already started'' NoPayload, d)
          else
            (Reply 200 ''Session deleted successfully'' NoPayload,
             d\<lparr>attendances :=
                  filter (\<lambda>a. session_oid (session a) \<noteq> Some (session_id s)) (attendances d),
               sessions := filter (\<lambda>s'. session_id s' \<noteq> sid) (sessions d)\<rparr>))"

section \<open>The attendance routes\<close>

text \<open>
  The body of a scan request: the two fields of \<^verbatim>\<open>qrData\<close>, the optional method
  and the optional confidence, the value as the body carries it.  The
  \<^verbatim>\<open>location\<close> and \<^verbatim>\<open>deviceInfo\<close> objects are copied into the record and read by
  nothing; they are left out.
\<close>

record scan_request =
  sessionId :: oid
  token :: string
  body_method :: "att_method option"
  body_faceConfidence :: "body_value option"

definition scan_request_valid :: "scan_request \<Rightarrow> bool" where
  \<comment> \<open>\<^verbatim>\<open>method\<close> optional and in \<^verbatim>\<open>['qr_code', 'face_recognition']\<close>;
      \<^verbatim>\<open>faceConfidence\<close> optional, a float with min 0 and max 1\<close>
  "scan_request_valid req =
     (body_method req \<noteq> Some manual \<and>
      (case body_faceConfidence req of None \<Rightarrow> True | Some v \<Rightarrow> isFloat v))"

definition method_of :: "scan_request \<Rightarrow> att_method" where
  \<comment> \<open>\<^verbatim>\<open>method = 'qr_code'\<close> in the destructuring of the body\<close>
  "method_of req = (case body_method req of None \<Rightarrow> qr_code | Some m \<Rightarrow> m)"

definition threshold :: "env \<Rightarrow> js_primitive" where
  \<comment> \<open>\<^verbatim>\<open>process.env.FACE_RECOGNITION_THRESHOLD || 0.6\<close>: the string of the environment,
      unless it is unset or empty\<close>
  "threshold e =
     (case FACE_RECOGNITION_THRESHOLD e of
        None \<Rightarrow> PNumber (Finite double_0_6)
      | Some (s, n) \<Rightarrow> if s = [] then PNumber (Finite double_0_6) else PString s n)"

definition face_not_registered :: "user \<Rightarrow> bool" where
  \<comment> \<open>\<^verbatim>\<open>!req.user.faceEmbedding || req.user.faceEmbedding.length === 0\<close>\<close>
  "face_not_registered u =
     (case faceEmbedding u of None \<Rightarrow> True | Some v \<Rightarrow> length v = 0)"

definition confidence_too_low :: "env \<Rightarrow> body_value option \<Rightarrow> bool" where
  \<comment> \<open>\<^verbatim>\<open>!faceConfidence || faceConfidence < (process.env.FACE_RECOGNITION_THRESHOLD || 0.6)\<close>\<close>
  "confidence_too_low e fc =
     (case fc of
        None \<Rightarrow> True
      | Some v \<Rightarrow> falsy v \<or> js_less (ToPrimitive v) (threshold e))"

text \<open>
  The scan handler in three parts, in the order of its lines: the checks, which end in
  a reply that refuses the presentation or let it proceed (the presentation is then
  accepted by the admission gate); the record built for a presentation that proceeds;
  and the two writes that admit the record.
\<close>

datatype decision = Rejected response | Proceed

definition admission_gate :: "env \<Rightarrow> db \<Rightarrow> user \<Rightarrow> scan_request \<Rightarrow> decision" where
  \<comment> \<open>the checks of the scan handler, from the session lookup to the face checks\<close>
  "admission_gate e d u req =
     (case Session_findOne d (sessionId req) (token req) of
        None \<Rightarrow> Rejected (Reply 400 ''Invalid QR code or session not found'' NoPayload)
      | Some s \<Rightarrow>
          if clock1 e > expiresAt s
          then Rejected (Reply 400 ''QR code has expired'' NoPayload)
          else if Date_less (Some (clock2 e)) (sessionStart (tz e) s)
          then Rejected (Reply 400 ''Session has not started yet'' NoPayload)
          else
            (case Attendance_findOne d (user_id u) (sessionId req) of
               Some existingAttendance \<Rightarrow>
                 Rejected (Reply 400 ''Attendance already marked for this session''
                             (AttendancePayload existingAttendance))
             | None \<Rightarrow>
                 if method_of req = face_recognition
                 then
                   (if face_not_registered u
                    then Rejected (Reply 400
                           ''Face not registered. Please register your face first.'' NoPayload)
                    else if confidence_too_low e (body_faceConfidence req)
                    then Rejected (Reply 400
                           ''Face recognition confidence too low. Please try again.'' NoPayload)
                    else Proceed)
                 else Proceed))"

definition new_Attendance :: "env \<Rightarrow> user \<Rightarrow> scan_request \<Rightarrow> attendance_doc" where
  \<comment> \<open>\<^verbatim>\<open>new Attendance({ ... })\<close> with the schema defaults for \<^verbatim>\<open>status\<close> and
      \<^verbatim>\<open>markedAt\<close>; \<^verbatim>\<open>undefined >= 0.8\<close> is false\<close>
  "new_Attendance e u req =
     \<lparr>attendance_id = new_oid e,
      student = user_id u,
      session = SessionId (sessionId req),
      status = present,
      markedAt = clock3 e,
      att_method = method_of req,
      faceConfidence =
        (case body_faceConfidence req of None \<Rightarrow> NotSet | Some v \<Rightarrow> castNumber v),
      isVerified =
        (if method_of req = face_recognition
         then (case body_faceConfidence req of
                 None \<Rightarrow> False
               | Some v \<Rightarrow> js_geq (ToPrimitive v) (PNumber (Finite double_0_8)))
         else True)\<rparr>"

definition admit ::
  "env \<Rightarrow> db \<Rightarrow> oid \<Rightarrow> attendance_doc \<Rightarrow> (js_error + attendance_doc) \<times> db" where
  \<comment> \<open>\<^verbatim>\<open>await attendance.save()\<close>, then
      \<^verbatim>\<open>await Session.findByIdAndUpdate(sessionId, { $inc: { attendanceCount: 1 } })\<close>;
      a rejected promise leaves the handler at that point\<close>
  "admit e d sid attendance =
     (case Attendance_save (tz e) (save_rejects e) d attendance of
        (Inl err, d1) \<Rightarrow> (Inl err, d1)
      | (Inr saved, d1) \<Rightarrow>
          (case Session_inc (inc_rejects e) d1 sid 1 of
             (Inl err, d2) \<Rightarrow> (Inl err, d2)
           | (Inr x, d2) \<Rightarrow> (Inr saved, d2)))"

definition scan_qr :: "env \<Rightarrow> db \<Rightarrow> user \<Rightarrow> scan_request \<Rightarrow> response \<times> db" where
  "scan_qr e d u req =
     (if \<not> scan_request_valid req then (Errors, d)
      else
        (case admission_gate e d u req of
           Rejected r \<Rightarrow> (r, d)
         | Proceed \<Rightarrow>
             (case admit e d (sessionId req) (new_Attendance e u req) of
                (Inl err, d') \<Rightarrow>
                  (Reply 500 ''Server error during attendance marking'' NoPayload, d')
              | (Inr saved, d') \<Rightarrow>
                  (Reply 201 ''Attendance marked successfully'' (AttendancePayload saved),
                   d'))))"

definition update_attendance :: "db \<Rightarrow> user \<Rightarrow> oid \<Rightarrow> status option \<Rightarrow> response \<times> db" where
  \<comment> \<open>\<^verbatim>\<open>PUT /:id\<close>; reading \<^verbatim>\<open>teacher\<close> of a session that \<^verbatim>\<open>populate\<close> did not find
      throws\<close>
  "update_attendance d u aid st =
     (case Attendance_findById d aid of
        None \<Rightarrow> (Reply 404 ''Attendance record not found'' NoPayload, d)
      | Some attendance \<Rightarrow>
          (case Option.bind (session_oid (session attendance)) (Session_findById d) of
             None \<Rightarrow> (Reply 500 ''Server error during attendance update'' NoPayload, d)
           | Some s \<Rightarrow>
               if teacher s \<noteq> user_id u \<and> role u \<noteq> Admin
               then (Reply 403 ''Access denied'' NoPayload, d)
               else
                 (let upd = (\<lambda>a. case st of None \<Rightarrow> a | Some v \<Rightarrow> a\<lparr>status := v\<rparr>)
                  in (Reply 200 ''Attendance updated successfully''
                        (AttendancePayload (upd attendance)),
                      d\<lparr>attendances :=
                           map (\<lambda>a. if attendance_id a = aid then upd a else a)
                               (attendances d)\<rparr>))))"

definition delete_attendance :: "db \<Rightarrow> user \<Rightarrow> oid \<Rightarrow> response \<times> db" where
  \<comment> \<open>\<^verbatim>\<open>DELETE /:id\<close>: \<^verbatim>\<open>findByIdAndDelete\<close>, then \<^verbatim>\<open>$inc\<close> of \<^verbatim>\<open>attendanceCount\<close>
      by \<open>-1\<close>\<close>
  "delete_attendance d u aid =
     (case Attendance_findById d aid of
        None \<Rightarrow> (Reply 404 ''Attendance record not found'' NoPayload, d)
      | Some attendance \<Rightarrow>
          (case Option.bind (session_oid (session attendance)) (Session_findById d) of
             None \<Rightarrow> (Reply 500 ''Server error during attendance deletion'' NoPayload, d)
           | Some s \<Rightarrow>
               if teacher s \<noteq> user_id u \<and> role u \<noteq> Admin
               then (Reply 403 ''Access denied'' NoPayload, d)
               else
                 (let d1 = d\<lparr>attendances :=
                               filter (\<lambda>a. attendance_id a \<noteq> aid) (attendances d)\<rparr>
                  in (Reply 200 ''Attendance record deleted successfully'' NoPayload,
                      snd (Session_inc False d1 (session_id s) (- 1))))))"

section \<open>Runs of the store\<close>

text \<open>
  The handlers that write to the two collections, as calls; a run applies them one
  after another, each from its first line to its reply.
\<close>

datatype call =
    CreateSession env user create_request
  | RegenerateQr env user oid
  | DeleteSession env user oid
  | ScanQr env user scan_request
  | UpdateAttendance user oid "status option"
  | DeleteAttendance user oid

fun handle :: "call \<Rightarrow> db \<Rightarrow> response \<times> db" where
  "handle (CreateSession e u req) d = create_session e d u req"
| "handle (RegenerateQr e u sid) d = regenerate_qr e d u sid"
| "handle (DeleteSession e u sid) d = delete_session e d u sid"
| "handle (ScanQr e u req) d = scan_qr e d u req"
| "handle (UpdateAttendance u aid st) d = update_attendance d u aid st"
| "handle (DeleteAttendance u aid) d = delete_attendance d u aid"

fun run :: "call list \<Rightarrow> db \<Rightarrow> db" where
  "run [] d = d"
| "run (c # cs) d = run cs (snd (handle c d))"

definition unique_index :: "db \<Rightarrow> bool" where
  \<comment> \<open>the state the compound unique index admits\<close>
  "unique_index d = distinct (map attendance_key (attendances d))"

definition records_for :: "db \<Rightarrow> oid \<Rightarrow> oid \<Rightarrow> attendance_doc list" where
  "records_for d stu sid =
     filter (\<lambda>a. student a = stu \<and> session_oid (session a) = Some sid) (attendances d)"

section \<open>Outcomes by name\<close>

text \<open>
  The replies of the handlers under the names of the outcome kinds: an invalid ticket
  is either of the two replies that refuse the ticket itself.
\<close>

definition InvalidTicket :: "response \<Rightarrow> bool" where
  "InvalidTicket r =
     (r = Reply 400 ''Invalid QR code or session not found'' NoPayload \<or>
      r = Reply 400 ''QR code has expired'' NoPayload)"

definition NotStarted :: response where
  "NotStarted = Reply 400 ''Session has not started yet'' NoPayload"

definition DuplicateAdmission :: "attendance_doc \<Rightarrow> response" where
  "DuplicateAdmission existing =
     Reply 400 ''Attendance already marked for this session'' (AttendancePayload existing)"

definition BiometricNotRegistered :: response where
  "BiometricNotRegistered =
     Reply 400 ''Face not registered. Please register your face first.'' NoPayload"

definition LowConfidence :: response where
  "LowConfidence =
     Reply 400 ''Face recognition confidence too low. Please try again.'' NoPayload"

definition ServerError :: response where
  "ServerError = Reply 500 ''Server error during attendance marking'' NoPayload"

definition Accepted :: "attendance_doc \<Rightarrow> response" where
  "Accepted a = Reply 201 ''Attendance marked successfully'' (AttendancePayload a)"

definition InvalidSchedule :: response where
  "InvalidSchedule = Reply 400 ''End time must be after start time'' NoPayload"

definition PastDate :: response where
  "PastDate = Reply 400 ''Cannot create session for past dates'' NoPayload"

definition Created :: "session_doc \<Rightarrow> response" where
  "Created s = Reply 201 ''Session created successfully'' (SessionPayload s)"

definition Regenerated :: "string \<Rightarrow> response" where
  "Regenerated t = Reply 200 ''QR code regenerated successfully'' (TokenPayload t)"

section \<open>A worked day\<close>

text \<open>
  One session from 09:00 to 10:00 on day 20000, on a server five and a half hours
  east of UTC; \<open>ex_at h m\<close> is the instant of \<open>h:m\<close> local time on that day.
\<close>

definition ex_tz :: int where
  "ex_tz = 19800000"

definition ex_at :: "nat \<Rightarrow> nat \<Rightarrow> instant" where
  "ex_at h m = local_date_time ex_tz 20000 (HHMM h m)"

definition ex_session :: session_doc where
  "ex_session =
     \<lparr>session_id = 1, subject = ''Algebra'', teacher = 7,
      date = 20000 * ms_per_day, startTime = HHMM 9 0, endTime = HHMM 10 0,
      qrToken = ''token-1'', isActive = True, expiresAt = ex_at 10 30,
      maxStudents = 100, attendanceCount = 0\<rparr>"

definition ex_db :: db where
  "ex_db = \<lparr>sessions = [ex_session], attendances = []\<rparr>"

definition ex_teacher :: user where
  "ex_teacher = \<lparr>user_id = 7, role = Teacher, faceEmbedding = None\<rparr>"

definition ex_student :: user where
  "ex_student = \<lparr>user_id = 42, role = Student, faceEmbedding = Some [Finite 1, Finite 0]\<rparr>"

definition ex_env :: "instant \<Rightarrow> env" where
  "ex_env t =
     \<lparr>clock1 = t, clock2 = t, clock3 = t, tz = ex_tz,
      FACE_RECOGNITION_THRESHOLD = None, uuid = ''token-2'', new_oid = 100,
      save_rejects = False, inc_rejects = False\<rparr>"

definition ex_scan :: scan_request where
  "ex_scan =
     \<lparr>sessionId = 1, token = ''token-1'', body_method = None, body_faceConfidence = None\<rparr>"

definition ex_create :: "time_of_day \<Rightarrow> time_of_day \<Rightarrow> create_request" where
  "ex_create s t =
     \<lparr>body_subject = ''Algebra'', body_date = ISO_date 20000, body_startTime = s,
      body_endTime = t, body_maxStudents = None\<rparr>"

definition ex_revoked :: db where
  "ex_revoked = \<lparr>sessions = [ex_session\<lparr>isActive := False\<rparr>], attendances = []\<rparr>"

definition ex_face :: "real \<Rightarrow> scan_request" where
  "ex_face c =
     ex_scan\<lparr>body_method := Some face_recognition,
             body_faceConfidence := Some (JNumber (Finite c))\<rparr>"

text \<open>
  The same server with \<^verbatim>\<open>FACE_RECOGNITION_THRESHOLD=0.6\<close> in its environment, and a
  confidence sent as a string: \<open>ex_face_text s x\<close> carries the string \<open>s\<close>, which
  \<^verbatim>\<open>Number\<close> converts to \<open>x\<close>.
\<close>

definition ex_configured :: "instant \<Rightarrow> env" where
  "ex_configured t =
     (ex_env t)\<lparr>FACE_RECOGNITION_THRESHOLD := Some (code_units ''0.6'', Finite double_0_6)\<rparr>"

definition ex_face_text :: "string \<Rightarrow> real \<Rightarrow> scan_request" where
  "ex_face_text s x =
     ex_scan\<lparr>body_method := Some face_recognition,
             body_faceConfidence := Some (JString (code_units s) (Finite x))\<rparr>"

fun reply_code :: "response \<Rightarrow> nat" where
  "reply_code Errors = 400"
| "reply_code (Reply c m p) = c"

text \<open>
  The record of a presentation at 09:20 with its session populated, the store after it
  has been admitted, and an environment in which the storage rejects the increment.
\<close>

definition ex_populated :: attendance_doc where
  "ex_populated =
     (new_Attendance (ex_env (ex_at 9 20)) ex_student ex_scan)\<lparr>session := SessionDoc ex_session\<rparr>"

definition ex_marked :: db where
  "ex_marked =
     \<lparr>sessions = [ex_session\<lparr>attendanceCount := 1\<rparr>],
      attendances = [stored (ex_populated\<lparr>status := late\<rparr>)]\<rparr>"


section \<open>Comparison and rounding of numbers\<close>

lemma js_number_less_Finite [simp]:
  "js_number_less (Finite x) (Finite y) = (x < y)"
  by (simp add: js_number_less_def)

lemma js_number_geq_Finite [simp]:
  "js_number_geq (Finite x) (Finite y) = (y \<le> x)"
  by (auto simp: js_number_geq_def)

lemma within_unit_Finite [simp]:
  "within_unit (Finite x) = (0 \<le> x \<and> x \<le> 1)"
  by (simp add: within_unit_def)

lemma js_equals_self:
  "js_equals s s = (s \<noteq> NaN)"
  by (cases s) simp_all

lemma js_mul_commute:
  "js_mul x y = js_mul y x"
  by (cases x; cases y) (auto simp: mult.commute)

text \<open>Rounding: a result of \<open>2 ^ 1024\<close> or more is \<^verbatim>\<open>Infinity\<close>.\<close>

lemma round_half_even_ge:
  "of_int n \<le> r \<Longrightarrow> n \<le> round_half_even r"
proof -
  assume "of_int n \<le> r"
  then have "n \<le> \<lfloor>r\<rfloor>" by (simp add: le_floor_iff)
  moreover have "\<lfloor>r\<rfloor> \<le> round_half_even r" by (simp add: round_half_even_def Let_def)
  ultimately show ?thesis by simp
qed

lemma round_half_even_le:
  "r \<le> of_int n \<Longrightarrow> round_half_even r \<le> n"
proof -
  assume a: "r \<le> of_int n"
  show ?thesis
  proof (cases "r = of_int n")
    case True
    then show ?thesis by (simp add: round_half_even_def Let_def)
  next
    case False
    then have "r < of_int n" using a by simp
    then have "\<lfloor>r\<rfloor> < n" by (simp add: floor_less_iff)
    moreover have "round_half_even r \<le> \<lfloor>r\<rfloor> + 1" by (simp add: round_half_even_def Let_def)
    ultimately show ?thesis by simp
  qed
qed

lemma round_to_double_overflow:
  assumes "2 ^ 1024 \<le> x"
  shows "round_to_double x = PosInfinity"
proof -
  have p: "(0::real) < 2 ^ 1024" by simp
  have x: "0 < x" using assms p by linarith
  define k where "k = \<lfloor>log 2 x\<rfloor>"
  have "(2::real) powr 1024 \<le> x" using assms by simp
  then have "1024 \<le> log 2 x" using x by (simp add: le_log_iff del: powr_numeral)
  then have k: "1024 \<le> k" unfolding k_def by (simp add: le_floor_iff)
  then have b: "binade x = k" using x by (simp add: binade_def k_def)
  have "of_int k \<le> log 2 x" unfolding k_def by simp
  then have kx: "2 powr (of_int k) \<le> x"
    using x by (simp add: le_log_iff)
  define ulp :: real where "ulp = 2 powr (of_int k - 52)"
  have up: "0 < ulp" by (simp add: ulp_def)
  have e: "(2::real) powr 52 * ulp = 2 powr (of_int k)"
    unfolding ulp_def powr_add [symmetric] by simp
  then have "2 powr 52 * ulp \<le> x" using kx by simp
  then have "2 powr 52 \<le> x / ulp" using up by (simp add: pos_le_divide_eq)
  then have "of_int (2 ^ 52) \<le> x / ulp" by simp
  then have r: "2 ^ 52 \<le> round_half_even (x / ulp)" by (rule round_half_even_ge)
  have "real_of_int (2 ^ 52) \<le> of_int (round_half_even (x / ulp))"
    using r by (simp only: of_int_le_iff)
  then have "(2::real) powr 52 \<le> of_int (round_half_even (x / ulp))" by simp
  then have "2 powr 52 * ulp \<le> of_int (round_half_even (x / ulp)) * ulp"
    using up by (simp only: mult_le_cancel_right_pos)
  moreover have "(2::real) powr 1024 \<le> 2 powr (of_int k)"
    using k by (intro powr_mono) simp_all
  ultimately have "2 powr 1024 \<le> of_int (round_half_even (x / ulp)) * ulp"
    using e by linarith
  then have "2 ^ 1024 \<le> \<bar>of_int (round_half_even (x / ulp)) * ulp\<bar>" by simp
  then show ?thesis
    using x b by (simp add: round_to_double_def Let_def ulp_def signed_infinity_def)
qed

text \<open>
  Rounding within the binade from a half to one, and the doubles of the two literals:
  \<open>double_0_6\<close> and \<open>double_0_8\<close> are what \<^verbatim>\<open>0.6\<close> and \<^verbatim>\<open>0.8\<close> round to.
\<close>

lemma round_to_double_half_one:
  assumes "1 / 2 \<le> x" and "x < 1"
  shows "round_to_double x = Finite (of_int (round_half_even (x * 2 ^ 53)) / 2 ^ 53)"
proof -
  have x: "0 < x" using assms by simp
  have "2 powr (- 1) \<le> x" using assms by (simp add: powr_minus)
  then have "- 1 \<le> log 2 x" using x by (simp add: le_log_iff)
  moreover have "log 2 x < 0" using assms x by (simp add: log_less_zero_cancel_iff)
  ultimately have "\<lfloor>log 2 x\<rfloor> = - 1" by (simp add: floor_unique)
  then have b: "binade x = - 1" using x by (simp add: binade_def)
  have u: "(2::real) powr (of_int (- 1) - 52) = 1 / 2 ^ 53"
    by (simp add: powr_minus powr_numeral divide_simps)
  have "x * 2 ^ 53 \<le> of_int (2 ^ 53)" using assms by simp
  then have "round_half_even (x * 2 ^ 53) \<le> 2 ^ 53" by (rule round_half_even_le)
  then have le: "real_of_int (round_half_even (x * 2 ^ 53)) \<le> real_of_int (2 ^ 53)"
    by (simp only: of_int_le_iff)
  have "of_int 1 \<le> x * 2 ^ 53" using assms by simp
  then have pos: "1 \<le> round_half_even (x * 2 ^ 53)" by (rule round_half_even_ge)
  then have ge: "0 \<le> real_of_int (round_half_even (x * 2 ^ 53))" by simp
  have "\<bar>real_of_int (round_half_even (x * 2 ^ 53)) / 2 ^ 53\<bar> \<le> 1"
    using le ge by (simp add: divide_simps)
  moreover have "(1::real) < 2 ^ 1024" by simp
  ultimately have s: "\<not> 2 ^ 1024 \<le> \<bar>real_of_int (round_half_even (x * 2 ^ 53)) / 2 ^ 53\<bar>"
    by linarith
  show ?thesis
    using x s pos unfolding round_to_double_def b u Let_def by (simp add: divide_simps)
qed

lemma double_of_literals:
  "round_to_double (6 / 10) = Finite double_0_6"
  "round_to_double (8 / 10) = Finite double_0_8"
  unfolding double_0_6_def double_0_8_def
  by (subst round_to_double_half_one; simp add: round_half_even_def Let_def)+

text \<open>
  Rounding in any binade; as an instance, the sum of the doubles of \<^verbatim>\<open>0.1\<close> and \<^verbatim>\<open>0.2\<close>
  is the double that prints as \<^verbatim>\<open>0.30000000000000004\<close>.
\<close>

lemma binade_eq:
  assumes "2 powr (of_int k) \<le> \<bar>x\<bar>" and "\<bar>x\<bar> < 2 powr (of_int k + 1)" and "- 1022 \<le> k"
  shows "binade x = k"
proof -
  have "(0::real) < 2 powr (of_int k)" by simp
  then have p: "0 < \<bar>x\<bar>" using assms(1) by linarith
  have "of_int k \<le> log 2 \<bar>x\<bar>" using assms(1) p by (simp add: le_log_iff)
  moreover have "log 2 \<bar>x\<bar> < of_int k + 1" using assms(2) p by (simp add: log_less_iff)
  ultimately have "\<lfloor>log 2 \<bar>x\<bar>\<rfloor> = k" by (simp add: floor_unique)
  then show ?thesis using assms(3) by (simp add: binade_def)
qed

lemma sum_of_tenths:
  "js_add (Finite (3602879701896397 / 2 ^ 55)) (Finite (3602879701896397 / 2 ^ 54)) =
     Finite (5404319552844596 / 2 ^ 54)"
proof -
  have b: "binade (10808639105689191 / 2 ^ 55) = - 2"
    by (rule binade_eq) (simp_all add: powr_minus divide_simps)
  have u: "(2::real) powr (of_int (- 2) - 52) = 1 / 2 ^ 54"
    by (simp add: powr_minus powr_numeral divide_simps)
  have s: "(3602879701896397 / 2 ^ 55 + 3602879701896397 / 2 ^ 54 :: real) =
             10808639105689191 / 2 ^ 55"
    by simp
  have r: "round_half_even (10808639105689191 / 2) = 5404319552844596"
    by (simp add: round_half_even_def Let_def)
  have "round_to_double (10808639105689191 / 2 ^ 55) = Finite (5404319552844596 / 2 ^ 54)"
    unfolding round_to_double_def b u Let_def using r by simp
  then show ?thesis
    unfolding js_add.simps s by simp
qed

text \<open>
  The numbers that the strings \<^verbatim>\<open>.7\<close> and \<^verbatim>\<open>6e-2\<close> of the worked day convert to: the
  doubles of seven tenths and of six hundredths.
\<close>

lemma double_of_strings:
  "round_to_double (7 / 10) = Finite (3152519739159347 / 4503599627370496)"
  "round_to_double (6 / 100) = Finite (1080863910568919 / 18014398509481984)"
proof -
  show "round_to_double (7 / 10) = Finite (3152519739159347 / 4503599627370496)"
    by (subst round_to_double_half_one) (simp_all add: round_half_even_def Let_def)
  have b: "binade (6 / 100) = - 5"
    by (rule binade_eq) (simp_all add: powr_minus divide_simps)
  have u: "(2::real) powr (of_int (- 5) - 52) = 1 / 2 ^ 57"
    by (simp add: powr_minus powr_numeral divide_simps)
  have r: "round_half_even (6 / 100 * 2 ^ 57) = 8646911284551352"
    by (simp add: round_half_even_def Let_def)
  show "round_to_double (6 / 100) = Finite (1080863910568919 / 18014398509481984)"
    unfolding round_to_double_def b u Let_def using r by simp
qed

text \<open>A natural number below \<open>2 ^ 53\<close> is a double.\<close>

lemma round_half_even_of_int:
  "round_half_even (of_int m) = m"
  by (simp add: round_half_even_def Let_def)

lemma round_to_double_nat:
  assumes "0 < n" and "n < 2 ^ 53"
  shows "round_to_double (of_nat n) = Finite (of_nat n)"
proof -
  define x :: real where "x = of_nat n"
  have x: "1 \<le> x" "x < 2 ^ 53" "\<bar>x\<bar> = x"
    using assms unfolding x_def by simp_all
  define k where "k = \<lfloor>log 2 x\<rfloor>"
  have "0 \<le> log 2 x" using x by simp
  then have k0: "0 \<le> k" unfolding k_def by simp
  have "x < 2 powr 53" using x by simp
  then have "log 2 x < 53" using x by (simp add: log_less_iff del: powr_numeral)
  then have k1: "k \<le> 52" unfolding k_def by (simp add: floor_less_iff)
  have b: "binade x = k" using k0 x(3) unfolding binade_def k_def by simp
  define j where "j = nat (52 - k)"
  have j: "real_of_int k - 52 = - real j" using k1 by (simp add: j_def)
  have u: "2 powr (of_int k - 52) = 1 / (2::real) ^ j"
    unfolding j by (simp add: powr_minus powr_realpow divide_simps)
  have r: "x / (1 / 2 ^ j) = of_int (int n * 2 ^ j)" by (simp add: x_def)
  have y: "real_of_int (round_half_even (x / (1 / 2 ^ j))) * (1 / 2 ^ j) = x"
    unfolding r round_half_even_of_int by (simp add: x_def)
  have "x < 2 ^ 1024"
  proof -
    have "(2::real) ^ 53 \<le> 2 ^ 1024" by (intro power_increasing) simp_all
    then show ?thesis using x by linarith
  qed
  then have o: "\<not> 2 ^ 1024 \<le> \<bar>x\<bar>" using x by linarith
  have "round_to_double x = Finite x"
    unfolding round_to_double_def b u Let_def y using o x by simp
  then show ?thesis by (simp add: x_def)
qed

lemma round_to_double_numeral:
  "numeral w < (2::nat) ^ 53 \<Longrightarrow> round_to_double (numeral w) = Finite (numeral w)"
  using round_to_double_nat [of "numeral w"] by simp

section \<open>Properties of the similarity scorer\<close>

lemma cosine_loop_swap:
  "length e1 = length e2 \<Longrightarrow>
   cosine_loop e2 e1 i (d, n2, n1) =
     (case cosine_loop e1 e2 i (d, n1, n2) of (d', a, b) \<Rightarrow> (d', b, a))"
proof (induction e1 e2 i "(d, n1, n2)" arbitrary: d n1 n2 rule: cosine_loop.induct)
  case (1 e1 e2 i d n1 n2)
  show ?case
  proof (cases "i < length e1")
    case True
    have "cosine_loop e2 e1 i (d, n2, n1) =
          cosine_loop e2 e1 (Suc i)
            (js_add d (js_mul (e2 ! i) (e1 ! i)), js_add n2 (js_mul (e2 ! i) (e2 ! i)),
             js_add n1 (js_mul (e1 ! i) (e1 ! i)))"
      using True "1.prems" by (subst cosine_loop.simps) simp
    also have "\<dots> = cosine_loop e2 e1 (Suc i)
            (js_add d (js_mul (e1 ! i) (e2 ! i)), js_add n2 (js_mul (e2 ! i) (e2 ! i)),
             js_add n1 (js_mul (e1 ! i) (e1 ! i)))"
      by (simp add: js_mul_commute)
    also have "\<dots> = (case cosine_loop e1 e2 (Suc i)
            (js_add d (js_mul (e1 ! i) (e2 ! i)), js_add n1 (js_mul (e1 ! i) (e1 ! i)),
             js_add n2 (js_mul (e2 ! i) (e2 ! i)))
          of (d', a, b) \<Rightarrow> (d', b, a))"
      using "1.hyps" [OF True] "1.prems" by simp
    also have "\<dots> = (case cosine_loop e1 e2 i (d, n1, n2) of (d', a, b) \<Rightarrow> (d', b, a))"
      using True by (subst (2) cosine_loop.simps) simp
    finally show ?thesis .
  next
    case False
    then have "\<not> i < length e2" using "1.prems" by simp
    then show ?thesis
      using False by (simp add: cosine_loop.simps)
  qed
qed

text \<open>
  The score of \<open>(3, 4)\<close> against \<open>(4, 3)\<close>: the dot product is 24, both norms are 5, and
  the quotient is the double of \<open>24 / 25\<close>, which prints as \<^verbatim>\<open>0.96\<close>.
\<close>

lemma score_of_3_4_and_4_3:
  "calculateCosineSimilarity [Finite 3, Finite 4] [Finite 4, Finite 3] =
     Inr (Finite (8646911284551352 / 9007199254740992))"
proof -
  have l: "cosine_loop [Finite 3, Finite 4] [Finite 4, Finite 3] 0 (Finite 0, Finite 0, Finite 0) =
             (Finite 24, Finite 25, Finite 25)"
    by (simp add: cosine_loop.simps round_to_double_numeral)
  have q: "sqrt 25 = 5"
    by (rule real_sqrt_unique) simp_all
  have d: "round_to_double (24 / 25) = Finite (8646911284551352 / 9007199254740992)"
    by (subst round_to_double_half_one) (simp_all add: round_half_even_def Let_def)
  show ?thesis
    by (simp add: calculateCosineSimilarity_def l q d round_to_double_numeral)
qed

text \<open>
  C8, as the code has it.  On two vectors of equal length the scorer returns a score,
  and the score of \<open>(a, b)\<close> is the very value of the score of \<open>(b, a)\<close>; the two compare
  equal under \<^verbatim>\<open>==\<close> exactly when that value is not \<^verbatim>\<open>NaN\<close>.
\<close>

theorem calculateCosineSimilarity_swap:
  "length a = length b \<Longrightarrow>
   (\<exists>s. calculateCosineSimilarity a b = Inr s \<and> calculateCosineSimilarity b a = Inr s \<and>
        js_equals s s = (s \<noteq> NaN))"
proof -
  assume len: "length a = length b"
  obtain d na nb where l: "cosine_loop a b 0 (Finite 0, Finite 0, Finite 0) = (d, na, nb)"
    by (cases "cosine_loop a b 0 (Finite 0, Finite 0, Finite 0)") auto
  have r: "cosine_loop b a 0 (Finite 0, Finite 0, Finite 0) = (d, nb, na)"
    using cosine_loop_swap [OF len, of 0 "Finite 0" "Finite 0" "Finite 0"] l by simp
  show ?thesis
    using len l r
    by (auto simp: calculateCosineSimilarity_def Let_def js_mul_commute js_equals_self)
qed

theorem calculateCosineSimilarity_swap_witness:
  "length [Finite 3, Finite 4] = length [Finite 4, Finite 3] \<and>
   calculateCosineSimilarity [Finite 3, Finite 4] [Finite 4, Finite 3] =
     Inr (Finite (8646911284551352 / 9007199254740992)) \<and>
   calculateCosineSimilarity [Finite 4, Finite 3] [Finite 3, Finite 4] =
     Inr (Finite (8646911284551352 / 9007199254740992)) \<and>
   js_equals (Finite (8646911284551352 / 9007199254740992))
     (Finite (8646911284551352 / 9007199254740992))"
proof -
  have len: "length [Finite 3, Finite 4] = length [Finite 4, Finite 3]"
    by simp
  obtain s where s: "calculateCosineSimilarity [Finite 3, Finite 4] [Finite 4, Finite 3] = Inr s"
    "calculateCosineSimilarity [Finite 4, Finite 3] [Finite 3, Finite 4] = Inr s"
    "js_equals s s = (s \<noteq> NaN)"
    using calculateCosineSimilarity_swap [OF len] by blast
  have "s = Finite (8646911284551352 / 9007199254740992)"
    using s(1) score_of_3_4_and_4_3 by simp
  then show ?thesis
    using s len by simp
qed

text \<open>
  C8, as stated, fails: the squares of \<open>2 ^ 600\<close> and of \<open>2 ^ 601\<close>, and their product,
  are beyond the doubles, so the dot product and both norms are \<^verbatim>\<open>Infinity\<close>, the score
  is \<^verbatim>\<open>Infinity / Infinity\<close>, which is \<^verbatim>\<open>NaN\<close>, either way round, and \<^verbatim>\<open>NaN == NaN\<close>
  is false.
\<close>

theorem score_of_overflow_counterexample:
  "length [Finite (2 ^ 600)] = length [Finite (2 ^ 601)] \<and>
   calculateCosineSimilarity [Finite (2 ^ 600)] [Finite (2 ^ 601)] = Inr NaN \<and>
   calculateCosineSimilarity [Finite (2 ^ 601)] [Finite (2 ^ 600)] = Inr NaN \<and>
   \<not> js_equals NaN NaN"
proof -
  have o: "round_to_double (2 ^ n) = PosInfinity" if "1024 \<le> n" for n :: nat
    using that by (intro round_to_double_overflow power_increasing) simp_all
  have l: "cosine_loop [Finite (2 ^ 600)] [Finite (2 ^ 601)] 0 (Finite 0, Finite 0, Finite 0) =
             (PosInfinity, PosInfinity, PosInfinity)"
    "cosine_loop [Finite (2 ^ 601)] [Finite (2 ^ 600)] 0 (Finite 0, Finite 0, Finite 0) =
             (PosInfinity, PosInfinity, PosInfinity)"
    by (simp_all add: cosine_loop.simps o del: power_numeral)
  show ?thesis
    by (simp add: calculateCosineSimilarity_def l signed_infinity_def del: power_numeral)
qed

section \<open>Evaluation of the worked day\<close>

lemmas ex_defs =
  ex_tz_def ex_at_def ex_session_def ex_db_def ex_teacher_def ex_student_def ex_env_def
  ex_scan_def ex_create_def

lemmas date_defs =
  ms_per_day_def ms_per_minute_def ms_of_time_def utc_day_def local_date_time_def
  local_midnight_def setHours_def time_of_day_valid_def new_Date_def
  Date_less_def Date_geq_def

section \<open>Ticket admissibility\<close>

lemma find_unique_id:
  "distinct (map session_id ss) \<Longrightarrow> find (\<lambda>s. session_id s = i) ss = Some t \<Longrightarrow>
   find (\<lambda>s. session_id s = i \<and> P s) ss = (if P t then Some t else None)"
  by (induction ss) (auto split: if_splits simp: find_None_iff image_iff)

lemma find_no_id:
  "find (\<lambda>s. session_id s = i) ss = None \<Longrightarrow> find (\<lambda>s. session_id s = i \<and> P s) ss = None"
  by (auto simp: find_None_iff)

lemma Session_findOne_by_id:
  assumes "distinct (map session_id (sessions d))"
  shows "Session_findOne d sid tok =
     (case Session_findById d sid of
        None \<Rightarrow> None
      | Some t \<Rightarrow> if qrToken t = tok \<and> isActive t then Some t else None)"
  using assms find_unique_id [of "sessions d" sid _ "\<lambda>s. qrToken s = tok \<and> isActive s"]
    find_no_id [of sid "sessions d" "\<lambda>s. qrToken s = tok \<and> isActive s"]
  by (auto simp: Session_findOne_def Session_findById_def split: option.splits)

lemma scan_qr_InvalidTicket:
  "scan_request_valid req \<Longrightarrow>
   InvalidTicket (fst (scan_qr e d u req)) =
   (case Session_findOne d (sessionId req) (token req) of
      None \<Rightarrow> True | Some s \<Rightarrow> clock1 e > expiresAt s)"
  by (auto simp: scan_qr_def admission_gate_def InvalidTicket_def
      split: option.splits prod.splits sum.splits)

text \<open>
  C4. A ticket is admissible (\<open>isValid\<close>) exactly when it is active and the clock has
  not passed \<open>expiresAt\<close>, the instant \<open>expiresAt\<close> itself included.  A validated
  presentation is refused as an invalid ticket exactly when the store holds no ticket
  with the presented id that carries the presented token and is admissible at the
  handler's first clock reading, and the refusal leaves the store as it was.
\<close>

theorem ticket_admissibility:
  assumes "distinct (map session_id (sessions d))" and "scan_request_valid req"
  shows "(isValid now s = (isActive s \<and> now \<le> expiresAt s)) \<and>
         (InvalidTicket (fst (scan_qr e d u req)) =
            (\<not> (\<exists>t. Session_findById d (sessionId req) = Some t \<and>
                      qrToken t = token req \<and> isValid (clock1 e) t))) \<and>
         (InvalidTicket (fst (scan_qr e d u req)) \<longrightarrow> snd (scan_qr e d u req) = d)"
proof -
  have a: "isValid now s = (isActive s \<and> now \<le> expiresAt s)"
    by (auto simp: isValid_def isExpired_def)
  have b: "InvalidTicket (fst (scan_qr e d u req)) =
            (\<not> (\<exists>t. Session_findById d (sessionId req) = Some t \<and>
                      qrToken t = token req \<and> isValid (clock1 e) t))"
    unfolding scan_qr_InvalidTicket [OF assms(2)] Session_findOne_by_id [OF assms(1)]
    by (auto simp: isValid_def isExpired_def split: option.splits)
  have c: "InvalidTicket (fst (scan_qr e d u req)) \<longrightarrow> snd (scan_qr e d u req) = d"
    using assms(2)
    by (auto simp: scan_qr_def InvalidTicket_def split: decision.splits prod.splits sum.splits)
  show ?thesis using a b c by blast
qed

theorem ticket_admissibility_witness:
  "distinct (map session_id (sessions ex_db)) \<and> scan_request_valid ex_scan \<and>
   isValid (ex_at 10 30) ex_session \<and> \<not> isValid (ex_at 10 31) ex_session \<and>
   InvalidTicket (fst (scan_qr (ex_env (ex_at 10 31)) ex_db ex_student ex_scan)) \<and>
   \<not> InvalidTicket (fst (scan_qr (ex_env (ex_at 10 30)) ex_db ex_student ex_scan)) \<and>
   InvalidTicket (fst (scan_qr (ex_env (ex_at 9 20)) ex_db ex_student
                       (ex_scan\<lparr>token := ''token-0''\<rparr>)))"
proof -
  have h1: "distinct (map session_id (sessions ex_db))"
    by (simp add: ex_defs)
  have h2: "scan_request_valid ex_scan"
    by (simp add: ex_defs scan_request_valid_def)
  have h3: "scan_request_valid (ex_scan\<lparr>token := ''token-0''\<rparr>)"
    by (simp add: ex_defs scan_request_valid_def)
  have f: "Session_findById ex_db 1 = Some ex_session"
    by (simp add: Session_findById_def ex_defs)
  have v: "isValid (ex_at 10 30) ex_session" "\<not> isValid (ex_at 10 31) ex_session"
    "isValid (ex_at 9 20) ex_session"
    using ticket_admissibility [OF h1 h2, where s = ex_session]
    by (simp_all add: ex_defs date_defs)
  show ?thesis
    using h1 h2 v f
      ticket_admissibility [OF h1 h2, where e = "ex_env (ex_at 10 31)" and u = ex_student]
      ticket_admissibility [OF h1 h2, where e = "ex_env (ex_at 10 30)" and u = ex_student]
      ticket_admissibility [OF h1 h3, where e = "ex_env (ex_at 9 20)" and u = ex_student]
    by (simp add: ex_scan_def ex_env_def ex_session_def)
qed

section \<open>Creating a session\<close>

text \<open>
  C5.  The create handler refuses a schedule whose end is not after its start by
  comparing two dates, and misses the schedules it cannot build them for.  The time
  pattern admits an hour of one digit, which the \<^verbatim>\<open>Date\<close> constructor does not parse:
  for a start sent as \<^verbatim>\<open>9:00\<close> and an end sent as \<^verbatim>\<open>08:30\<close>, \<^verbatim>\<open>start\<close> is an invalid
  date, \<^verbatim>\<open>start >= end\<close> is false, and the session, which ends half an hour before it
  starts, is created, where the claim has the request fail with \<open>InvalidSchedule\<close>.
  With the same start sent as \<^verbatim>\<open>09:00\<close> the handler does reply \<open>InvalidSchedule\<close>, and
  on two-digit hours it refuses a past date and creates a session in order with the
  expiry thirty minutes after the end.
\<close>

theorem one_digit_hour_defeats_schedule_check:
  "create_request_valid (ex_create (HMM 9 0) (HHMM 8 30)) \<and>
   local_date_time ex_tz 20000 (HHMM 8 30) < local_date_time ex_tz 20000 (HMM 9 0) \<and>
   new_Date ex_tz 20000 (HMM 9 0) = None \<and>
   create_session (ex_env (ex_at 8 0)) ex_db ex_teacher (ex_create (HMM 9 0) (HHMM 8 30)) =
     (Created
        \<lparr>session_id = 100, subject = ''Algebra'', teacher = 7, date = 20000 * ms_per_day,
         startTime = HMM 9 0, endTime = HHMM 8 30, qrToken = ''token-2'', isActive = True,
         expiresAt = ex_at 9 0, maxStudents = 100, attendanceCount = 0\<rparr>,
      ex_db\<lparr>sessions :=
        [ex_session,
         \<lparr>session_id = 100, subject = ''Algebra'', teacher = 7, date = 20000 * ms_per_day,
          startTime = HMM 9 0, endTime = HHMM 8 30, qrToken = ''token-2'', isActive = True,
          expiresAt = ex_at 9 0, maxStudents = 100, attendanceCount = 0\<rparr>]\<rparr>) \<and>
   create_session (ex_env (ex_at 8 0)) ex_db ex_teacher (ex_create (HHMM 9 0) (HHMM 8 30)) =
     (InvalidSchedule, ex_db) \<and>
   create_session (ex_env (ex_at 8 0 + ms_per_day)) ex_db ex_teacher
       (ex_create (HHMM 9 0) (HHMM 10 0)) = (PastDate, ex_db) \<and>
   fst (create_session (ex_env (ex_at 8 0)) ex_db ex_teacher (ex_create (HHMM 9 0) (HHMM 10 0))) =
     Created
        \<lparr>session_id = 100, subject = ''Algebra'', teacher = 7, date = 20000 * ms_per_day,
         startTime = HHMM 9 0, endTime = HHMM 10 0, qrToken = ''token-2'', isActive = True,
         expiresAt = ex_at 10 30, maxStudents = 100, attendanceCount = 0\<rparr>"
  by (simp add: create_session_def create_request_valid_def Session_insert_def Created_def
      InvalidSchedule_def PastDate_def Let_def ex_defs date_defs)

section \<open>Regenerating the token\<close>

lemma find_set_qrToken:
  "find (\<lambda>s. session_id s = i) ss = Some t \<Longrightarrow>
   find (\<lambda>s. session_id s = i)
        (map (\<lambda>s. if session_id s = i then s\<lparr>qrToken := k\<rparr> else s) ss) =
     Some (t\<lparr>qrToken := k\<rparr>)"
  by (induction ss) (auto split: if_splits)

lemma find_set_qrToken_other:
  "j \<noteq> i \<Longrightarrow>
   find (\<lambda>s. session_id s = j)
        (map (\<lambda>s. if session_id s = i then s\<lparr>qrToken := k\<rparr> else s) ss) =
     find (\<lambda>s. session_id s = j) ss"
  by (induction ss) (auto split: if_splits)

lemma regenerate_qr_result:
  assumes "Session_findById d sid = Some s" and "teacher s = user_id u"
    and "\<forall>t \<in> set (sessions d). session_id t \<noteq> sid \<longrightarrow> qrToken t \<noteq> uuid e"
  shows "regenerate_qr e d u sid =
     (Regenerated (uuid e),
      d\<lparr>sessions :=
          map (\<lambda>t. if session_id t = sid then t\<lparr>qrToken := uuid e\<rparr> else t) (sessions d)\<rparr>)"
  using assms by (auto simp: regenerate_qr_def Session_set_qrToken_def Regenerated_def Let_def)

text \<open>
  C10. Regenerating the token asks only that the ticket exists and belongs to the
  caller (and that the generated token is carried by no other ticket): it then succeeds,
  installs the generated token, and leaves \<open>expiresAt\<close>, \<open>isActive\<close>, the schedule
  fields and the attendance count of the ticket, every other ticket and every attendance
  record as they were.  Neither \<open>isActive\<close> nor the clock is read.
\<close>

theorem regenerate_qr_frame:
  assumes "Session_findById d sid = Some s" and "teacher s = user_id u"
    and "\<forall>t \<in> set (sessions d). session_id t \<noteq> sid \<longrightarrow> qrToken t \<noteq> uuid e"
  shows "fst (regenerate_qr e d u sid) = Regenerated (uuid e) \<and>
         (\<exists>s'. Session_findById (snd (regenerate_qr e d u sid)) sid = Some s' \<and>
               s' = s\<lparr>qrToken := uuid e\<rparr> \<and> qrToken s' = uuid e \<and>
               expiresAt s' = expiresAt s \<and> isActive s' = isActive s \<and>
               date s' = date s \<and> startTime s' = startTime s \<and> endTime s' = endTime s \<and>
               attendanceCount s' = attendanceCount s) \<and>
         (\<forall>j. j \<noteq> sid \<longrightarrow>
               Session_findById (snd (regenerate_qr e d u sid)) j = Session_findById d j) \<and>
         attendances (snd (regenerate_qr e d u sid)) = attendances d"
  using assms(1)
  by (simp add: regenerate_qr_result [OF assms] Session_findById_def find_set_qrToken
      find_set_qrToken_other)

theorem regenerate_qr_frame_witness:
  "Session_findById ex_revoked 1 = Some (ex_session\<lparr>isActive := False\<rparr>) \<and>
   teacher (ex_session\<lparr>isActive := False\<rparr>) = user_id ex_teacher \<and>
   uuid (ex_env (ex_at 23 0)) \<notin> qrToken ` set (sessions ex_revoked) \<and>
   \<not> isValid (clock1 (ex_env (ex_at 23 0))) (ex_session\<lparr>isActive := False\<rparr>) \<and>
   expiresAt ex_session < clock1 (ex_env (ex_at 23 0)) \<and>
   fst (regenerate_qr (ex_env (ex_at 23 0)) ex_revoked ex_teacher 1) = Regenerated ''token-2'' \<and>
   Session_findById (snd (regenerate_qr (ex_env (ex_at 23 0)) ex_revoked ex_teacher 1)) 1 =
     Some (ex_session\<lparr>isActive := False, qrToken := ''token-2''\<rparr>)"
proof -
  have h1: "Session_findById ex_revoked 1 = Some (ex_session\<lparr>isActive := False\<rparr>)"
    by (simp add: Session_findById_def ex_revoked_def ex_session_def)
  have h2: "teacher (ex_session\<lparr>isActive := False\<rparr>) = user_id ex_teacher"
    by (simp add: ex_session_def ex_teacher_def)
  have h3: "\<forall>t \<in> set (sessions ex_revoked).
       session_id t \<noteq> 1 \<longrightarrow> qrToken t \<noteq> uuid (ex_env (ex_at 23 0))"
    by (simp add: ex_revoked_def ex_session_def)
  have h4: "\<not> isValid (clock1 (ex_env (ex_at 23 0))) (ex_session\<lparr>isActive := False\<rparr>)"
    by (simp add: isValid_def)
  have h5: "expiresAt ex_session < clock1 (ex_env (ex_at 23 0))"
    by (simp add: ex_defs date_defs)
  have h6: "uuid (ex_env (ex_at 23 0)) \<notin> qrToken ` set (sessions ex_revoked)"
    by (simp add: ex_revoked_def ex_session_def ex_env_def)
  show ?thesis
    using h1 h2 h4 h5 h6 regenerate_qr_frame [OF h1 h2 h3]
    by (simp add: ex_env_def)
qed

section \<open>The biometric check of the admission gate\<close>

lemma gate_past_ticket_checks:
  assumes "Session_findOne d (sessionId req) (token req) = Some s"
    and "clock1 e \<le> expiresAt s"
    and "\<not> Date_less (Some (clock2 e)) (sessionStart (tz e) s)"
    and "Attendance_findOne d (user_id u) (sessionId req) = None"
  shows "admission_gate e d u req =
     (if method_of req = face_recognition
      then (if face_not_registered u then Rejected BiometricNotRegistered
            else if confidence_too_low e (body_faceConfidence req) then Rejected LowConfidence
            else Proceed)
      else Proceed)"
  using assms by (simp add: admission_gate_def BiometricNotRegistered_def LowConfidence_def)

text \<open>
  C2, as the code has it.  For a biometric presentation that passes the ticket,
  not-started, duplicate and profile-registered checks, the admission gate takes the
  score from the \<^verbatim>\<open>faceConfidence\<close> of the request: it refuses with \<open>LowConfidence\<close>
  exactly when that value is missing, or is falsy, or is below the admission threshold
  under \<^verbatim>\<open><\<close>, and lets the presentation through otherwise.  The threshold is the
  number 0.6 when \<^verbatim>\<open>FACE_RECOGNITION_THRESHOLD\<close> is unset or empty, and is the string
  of that variable otherwise.  So a confidence sent as a number is refused exactly when
  it is zero or below the threshold as a number, and a confidence sent as a string is
  refused exactly when it is empty or below the threshold: as a number when the
  variable is unset or empty, and as a string, unit by unit, otherwise.  The stored
  profile is tested for being non-empty and is compared with nothing.
\<close>

theorem biometric_gate_reads_submitted_confidence:
  assumes "Session_findOne d (sessionId req) (token req) = Some s"
    and "clock1 e \<le> expiresAt s"
    and "\<not> Date_less (Some (clock2 e)) (sessionStart (tz e) s)"
    and "Attendance_findOne d (user_id u) (sessionId req) = None"
    and "method_of req = face_recognition" and "\<not> face_not_registered u"
  shows "((admission_gate e d u req = Rejected LowConfidence) =
            (case body_faceConfidence req of
               None \<Rightarrow> True
             | Some v \<Rightarrow> falsy v \<or> js_less (ToPrimitive v) (threshold e))) \<and>
         (admission_gate e d u req \<noteq> Rejected LowConfidence \<longrightarrow>
            admission_gate e d u req = Proceed) \<and>
         (body_faceConfidence req = None \<longrightarrow> admission_gate e d u req = Rejected LowConfidence) \<and>
         (\<forall>c. body_faceConfidence req = Some (JNumber (Finite c)) \<longrightarrow>
            (admission_gate e d u req = Rejected LowConfidence) =
              (c = 0 \<or> js_number_less (Finite c) (ToNumber (threshold e)))) \<and>
         (\<forall>c. body_faceConfidence req = Some (JNumber (Finite c)) \<and>
              (FACE_RECOGNITION_THRESHOLD e = None \<or>
               (\<exists>m. FACE_RECOGNITION_THRESHOLD e = Some ([], m))) \<longrightarrow>
            (admission_gate e d u req = Rejected LowConfidence) = (c = 0 \<or> c < double_0_6)) \<and>
         (\<forall>c t x. body_faceConfidence req = Some (JNumber (Finite c)) \<and>
              FACE_RECOGNITION_THRESHOLD e = Some (t, Finite x) \<and> t \<noteq> [] \<longrightarrow>
            (admission_gate e d u req = Rejected LowConfidence) = (c = 0 \<or> c < x)) \<and>
         (\<forall>str x. body_faceConfidence req = Some (JString str (Finite x)) \<and>
              (FACE_RECOGNITION_THRESHOLD e = None \<or>
               (\<exists>m. FACE_RECOGNITION_THRESHOLD e = Some ([], m))) \<longrightarrow>
            (admission_gate e d u req = Rejected LowConfidence) = (str = [] \<or> x < double_0_6)) \<and>
         (\<forall>str n t m. body_faceConfidence req = Some (JString str n) \<and>
              FACE_RECOGNITION_THRESHOLD e = Some (t, m) \<and> t \<noteq> [] \<longrightarrow>
            (admission_gate e d u req = Rejected LowConfidence) =
              (str = [] \<or> js_string_less str t)) \<and>
         (\<forall>v. v \<noteq> [] \<longrightarrow>
            admission_gate e d (u\<lparr>faceEmbedding := Some v\<rparr>) req = admission_gate e d u req)"
proof -
  have g: "admission_gate e d u req =
     (if confidence_too_low e (body_faceConfidence req) then Rejected LowConfidence else Proceed)"
    using gate_past_ticket_checks [OF assms(1-4)] assms(5,6) by simp
  have g': "admission_gate e d (u\<lparr>faceEmbedding := Some v\<rparr>) req =
     (if confidence_too_low e (body_faceConfidence req) then Rejected LowConfidence else Proceed)"
    if "v \<noteq> []" for v
    using gate_past_ticket_checks [OF assms(1-3), of "u\<lparr>faceEmbedding := Some v\<rparr>"] assms(4,5) that
    by (simp add: face_not_registered_def)
  have r: "(admission_gate e d u req = Rejected LowConfidence) =
             confidence_too_low e (body_faceConfidence req)"
    by (simp add: g)
  have c1: "(admission_gate e d u req = Rejected LowConfidence) =
            (case body_faceConfidence req of
               None \<Rightarrow> True
             | Some v \<Rightarrow> falsy v \<or> js_less (ToPrimitive v) (threshold e))"
    unfolding r by (simp add: confidence_too_low_def)
  have c2: "admission_gate e d u req \<noteq> Rejected LowConfidence \<longrightarrow>
            admission_gate e d u req = Proceed"
    by (simp add: g)
  have c3: "body_faceConfidence req = None \<longrightarrow> admission_gate e d u req = Rejected LowConfidence"
    unfolding r by (simp add: confidence_too_low_def)
  have c4: "\<forall>c. body_faceConfidence req = Some (JNumber (Finite c)) \<longrightarrow>
            (admission_gate e d u req = Rejected LowConfidence) =
              (c = 0 \<or> js_number_less (Finite c) (ToNumber (threshold e)))"
    unfolding r by (cases "threshold e") (auto simp: confidence_too_low_def)
  have c5: "\<forall>c. body_faceConfidence req = Some (JNumber (Finite c)) \<and>
              (FACE_RECOGNITION_THRESHOLD e = None \<or>
               (\<exists>m. FACE_RECOGNITION_THRESHOLD e = Some ([], m))) \<longrightarrow>
            (admission_gate e d u req = Rejected LowConfidence) = (c = 0 \<or> c < double_0_6)"
    unfolding r by (auto simp: confidence_too_low_def threshold_def)
  have c6: "\<forall>c t x. body_faceConfidence req = Some (JNumber (Finite c)) \<and>
              FACE_RECOGNITION_THRESHOLD e = Some (t, Finite x) \<and> t \<noteq> [] \<longrightarrow>
            (admission_gate e d u req = Rejected LowConfidence) = (c = 0 \<or> c < x)"
    unfolding r by (auto simp: confidence_too_low_def threshold_def)
  have c7: "\<forall>str x. body_faceConfidence req = Some (JString str (Finite x)) \<and>
              (FACE_RECOGNITION_THRESHOLD e = None \<or>
               (\<exists>m. FACE_RECOGNITION_THRESHOLD e = Some ([], m))) \<longrightarrow>
            (admission_gate e d u req = Rejected LowConfidence) = (str = [] \<or> x < double_0_6)"
    unfolding r by (auto simp: confidence_too_low_def threshold_def)
  have c8: "\<forall>str n t m. body_faceConfidence req = Some (JString str n) \<and>
              FACE_RECOGNITION_THRESHOLD e = Some (t, m) \<and> t \<noteq> [] \<longrightarrow>
            (admission_gate e d u req = Rejected LowConfidence) =
              (str = [] \<or> js_string_less str t)"
    unfolding r by (auto simp: confidence_too_low_def threshold_def)
  have c9: "\<forall>v. v \<noteq> [] \<longrightarrow>
            admission_gate e d (u\<lparr>faceEmbedding := Some v\<rparr>) req = admission_gate e d u req"
    using g g' by simp
  show ?thesis
    using c1 c2 c3 c4 c5 c6 c7 c8 c9 by (intro conjI)
qed

lemma ex_ticket_checks:
  assumes "req = ex_scan\<lparr>body_method := Some face_recognition, body_faceConfidence := fc\<rparr>"
    and "e = (ex_env (ex_at 9 5))\<lparr>FACE_RECOGNITION_THRESHOLD := th\<rparr>"
  shows "Session_findOne ex_db (sessionId req) (token req) = Some ex_session"
    and "clock1 e \<le> expiresAt ex_session"
    and "\<not> Date_less (Some (clock2 e)) (sessionStart (tz e) ex_session)"
    and "Attendance_findOne ex_db (user_id ex_student) (sessionId req) = None"
    and "method_of req = face_recognition"
    and "\<not> face_not_registered ex_student"
  unfolding assms
  by (simp_all add: Session_findOne_def Attendance_findOne_def sessionStart_def method_of_def
      face_not_registered_def ex_defs date_defs)

lemma ex_envs:
  "ex_env (ex_at 9 5) = (ex_env (ex_at 9 5))\<lparr>FACE_RECOGNITION_THRESHOLD := None\<rparr>"
  "ex_configured (ex_at 9 5) =
     (ex_env (ex_at 9 5))\<lparr>FACE_RECOGNITION_THRESHOLD :=
        Some (code_units ''0.6'', Finite double_0_6)\<rparr>"
  by (simp_all add: ex_env_def ex_configured_def)

theorem biometric_gate_reads_submitted_confidence_witness:
  "Session_findOne ex_db (sessionId (ex_face (1 / 2))) (token (ex_face (1 / 2))) = Some ex_session \<and>
   clock1 (ex_env (ex_at 9 5)) \<le> expiresAt ex_session \<and>
   \<not> Date_less (Some (clock2 (ex_env (ex_at 9 5)))) (sessionStart (tz (ex_env (ex_at 9 5))) ex_session) \<and>
   Attendance_findOne ex_db (user_id ex_student) (sessionId (ex_face (1 / 2))) = None \<and>
   method_of (ex_face (1 / 2)) = face_recognition \<and> \<not> face_not_registered ex_student \<and>
   admission_gate (ex_env (ex_at 9 5)) ex_db ex_student (ex_face (1 / 2)) = Rejected LowConfidence \<and>
   admission_gate (ex_env (ex_at 9 5)) ex_db ex_student (ex_face (3 / 4)) = Proceed \<and>
   admission_gate (ex_configured (ex_at 9 5)) ex_db ex_student (ex_face (1 / 2)) =
     Rejected LowConfidence \<and>
   admission_gate (ex_configured (ex_at 9 5)) ex_db ex_student
     (ex_face_text ''.7'' (3152519739159347 / 4503599627370496)) = Rejected LowConfidence \<and>
   admission_gate (ex_configured (ex_at 9 5)) ex_db ex_student
     (ex_face_text ''6e-2'' (1080863910568919 / 18014398509481984)) = Proceed \<and>
   admission_gate (ex_env (ex_at 9 5)) ex_db ex_student
     (ex_face_text ''6e-2'' (1080863910568919 / 18014398509481984)) = Rejected LowConfidence"
proof -
  note e = ex_envs
  have th: "threshold (ex_env (ex_at 9 5)) = PNumber (Finite double_0_6)"
    "threshold (ex_configured (ex_at 9 5)) = PString [48, 46, 54] (Finite double_0_6)"
    by (simp_all add: threshold_def ex_env_def ex_configured_def code_units_def)
  have fc: "body_faceConfidence (ex_face c) = Some (JNumber (Finite c))"
    "body_faceConfidence (ex_face_text str x) = Some (JString (code_units str) (Finite x))"
    for c str x
    by (simp_all add: ex_face_def ex_face_text_def)
  note h1 = ex_ticket_checks [OF ex_face_def [of "1 / 2"] e(1)]
  note h2 = ex_ticket_checks [OF ex_face_def [of "3 / 4"] e(1)]
  note h3 = ex_ticket_checks [OF ex_face_def [of "1 / 2"] e(2)]
  note h4 = ex_ticket_checks
    [OF ex_face_text_def [of "''.7''" "3152519739159347 / 4503599627370496"] e(2)]
  note h5 = ex_ticket_checks
    [OF ex_face_text_def [of "''6e-2''" "1080863910568919 / 18014398509481984"] e(2)]
  note h6 = ex_ticket_checks
    [OF ex_face_text_def [of "''6e-2''" "1080863910568919 / 18014398509481984"] e(1)]
  have a: "admission_gate (ex_env (ex_at 9 5)) ex_db ex_student (ex_face (1 / 2)) =
             Rejected LowConfidence"
    using biometric_gate_reads_submitted_confidence [OF h1]
    by (simp add: fc th double_0_6_def)
  have b: "admission_gate (ex_env (ex_at 9 5)) ex_db ex_student (ex_face (3 / 4)) = Proceed"
    using biometric_gate_reads_submitted_confidence [OF h2]
    by (simp add: fc th double_0_6_def)
  have c: "admission_gate (ex_configured (ex_at 9 5)) ex_db ex_student (ex_face (1 / 2)) =
             Rejected LowConfidence"
    using biometric_gate_reads_submitted_confidence [OF h3]
    by (simp add: fc th double_0_6_def)
  have d: "admission_gate (ex_configured (ex_at 9 5)) ex_db ex_student
             (ex_face_text ''.7'' (3152519739159347 / 4503599627370496)) = Rejected LowConfidence"
    using biometric_gate_reads_submitted_confidence [OF h4]
    by (simp add: fc th code_units_def)
  have f: "admission_gate (ex_configured (ex_at 9 5)) ex_db ex_student
             (ex_face_text ''6e-2'' (1080863910568919 / 18014398509481984)) = Proceed"
    using biometric_gate_reads_submitted_confidence [OF h5]
    by (simp add: fc th code_units_def)
  have g: "admission_gate (ex_env (ex_at 9 5)) ex_db ex_student
             (ex_face_text ''6e-2'' (1080863910568919 / 18014398509481984)) = Rejected LowConfidence"
    using biometric_gate_reads_submitted_confidence [OF h6]
    by (simp add: fc th code_units_def double_0_6_def)
  show ?thesis
    using h1 a b c d f g by (intro conjI)
qed

text \<open>
  C2, as stated, fails: two presentations by the same subject against the same store
  and clock, equal but for the submitted \<^verbatim>\<open>faceConfidence\<close>, are decided differently.
\<close>

theorem decision_follows_submitted_score_counterexample:
  "admission_gate (ex_env (ex_at 9 5)) ex_db ex_student (ex_face (1 / 2)) = Rejected LowConfidence \<and>
   admission_gate (ex_env (ex_at 9 5)) ex_db ex_student (ex_face (7 / 8)) = Proceed \<and>
   ex_face (7 / 8) = (ex_face (1 / 2))\<lparr>body_faceConfidence := Some (JNumber (Finite (7 / 8)))\<rparr>"
proof -
  have t: "threshold (ex_env (ex_at 9 5)) = PNumber (Finite double_0_6)"
    by (simp add: threshold_def ex_env_def)
  have g: "admission_gate (ex_env (ex_at 9 5)) ex_db ex_student (ex_face c) =
     (if c = 0 \<or> c < double_0_6 then Rejected LowConfidence else Proceed)" for c
    using gate_past_ticket_checks [OF ex_ticket_checks(1-4) [OF ex_face_def [of c] ex_envs(1)]]
      ex_ticket_checks(5,6) [OF ex_face_def [of c] ex_envs(1)]
    by (simp add: confidence_too_low_def t ex_face_def)
  show ?thesis
    by (simp add: g double_0_6_def) (simp add: ex_face_def)
qed

section \<open>The record the scan handler builds and saves\<close>

lemma Attendance_save_Inr:
  "Attendance_save z r d a = (Inr saved, d1) \<Longrightarrow>
   d1 = d\<lparr>attendances := attendances d @ [stored saved]\<rparr>"
  by (auto simp: Attendance_save_def split: sum.splits if_splits)


lemma pre_save_populated:
  "session a = SessionDoc s \<Longrightarrow>
   pre_save z a =
     Inr (if markedAt a > setHours z (date s) (startTime s) + 15 * ms_per_minute \<and>
             status a = present
          then a\<lparr>status := late\<rparr> else a)"
  by (simp add: pre_save_def isLate_def Let_def)

text \<open>
  The record the handler builds holds the ObjectId of its session, whatever the request:
  the middleware's \<^verbatim>\<open>isLate\<close> throws on it, so the save, the admission and the
  handler end in an error and the store is as it was.
\<close>

lemma isLate_of_candidate:
  "isLate z (new_Attendance e u req) = Inl TypeError"
  by (simp add: isLate_def new_Attendance_def)

lemma save_of_candidate:
  "\<exists>err. Attendance_save z r d (new_Attendance e u req) = (Inl err, d)"
  by (simp add: Attendance_save_def pre_save_def isLate_of_candidate)

lemma admit_of_candidate:
  "\<exists>err. admit e d sid (new_Attendance e' u req) = (Inl err, d)"
  using save_of_candidate [of "tz e" "save_rejects e" d e' u req]
  by (auto simp: admit_def)

lemma scan_qr_of_proceed:
  "scan_request_valid req \<Longrightarrow> admission_gate e d u req = Proceed \<Longrightarrow>
   scan_qr e d u req = (ServerError, d)"
  using admit_of_candidate [of e d "sessionId req" e u req]
  by (auto simp: scan_qr_def ServerError_def)

lemma scan_qr_of_rejected:
  "scan_request_valid req \<Longrightarrow> admission_gate e d u req = Rejected r \<Longrightarrow>
   scan_qr e d u req = (r, d)"
  by (simp add: scan_qr_def)

lemma ex_scan_proceeds:
  "admission_gate (ex_env (ex_at 9 5)) ex_db ex_student ex_scan = Proceed"
  "admission_gate (ex_env (ex_at 9 20)) ex_db ex_student ex_scan = Proceed"
  by (simp_all add: admission_gate_def Session_findOne_def Attendance_findOne_def sessionStart_def
      method_of_def ex_defs date_defs)

lemma ex_populated_saved:
  "Attendance_save ex_tz False ex_db ex_populated =
     (Inr (ex_populated\<lparr>status := late\<rparr>),
      ex_db\<lparr>attendances := [stored (ex_populated\<lparr>status := late\<rparr>)]\<rparr>)"
  by (simp add: Attendance_save_def validate_attendance_def pre_save_def isLate_def Let_def
      ex_populated_def new_Attendance_def ex_defs date_defs)

section \<open>The verified flag\<close>

text \<open>
  C6.  A biometric presentation whose confidence reaches the admission threshold and
  is below 0.8 is not accepted.  At 09:05 the validated presentation with the confidence
  0.75 passes every check of the admission gate, and the record the handler builds for
  it is unverified, as the claim has it; but the save of that record fails in the
  pre-save middleware, which reads \<^verbatim>\<open>isLate\<close> on a record that holds the ObjectId of its
  session, so the handler replies with the server error and stores nothing, where the
  claim has an accepted record.  The same holds of the confidence 0.875 and of the
  presentation by token only, whose records would be verified.  This is the defect of
  the late classification.
\<close>

theorem passing_score_is_not_accepted:
  "scan_request_valid (ex_face (3 / 4)) \<and>
   admission_gate (ex_env (ex_at 9 5)) ex_db ex_student (ex_face (3 / 4)) = Proceed \<and>
   \<not> isVerified (new_Attendance (ex_env (ex_at 9 5)) ex_student (ex_face (3 / 4))) \<and>
   isLate ex_tz (new_Attendance (ex_env (ex_at 9 5)) ex_student (ex_face (3 / 4))) = Inl TypeError \<and>
   scan_qr (ex_env (ex_at 9 5)) ex_db ex_student (ex_face (3 / 4)) = (ServerError, ex_db) \<and>
   ServerError \<noteq> Accepted (new_Attendance (ex_env (ex_at 9 5)) ex_student (ex_face (3 / 4))) \<and>
   records_for ex_db 42 1 = [] \<and>
   scan_request_valid (ex_face (7 / 8)) \<and>
   isVerified (new_Attendance (ex_env (ex_at 9 5)) ex_student (ex_face (7 / 8))) \<and>
   scan_qr (ex_env (ex_at 9 5)) ex_db ex_student (ex_face (7 / 8)) = (ServerError, ex_db) \<and>
   scan_request_valid ex_scan \<and>
   isVerified (new_Attendance (ex_env (ex_at 9 5)) ex_student ex_scan) \<and>
   scan_qr (ex_env (ex_at 9 5)) ex_db ex_student ex_scan = (ServerError, ex_db)"
proof -
  have t: "threshold (ex_env (ex_at 9 5)) = PNumber (Finite double_0_6)"
    by (simp add: threshold_def ex_env_def)
  have v: "scan_request_valid (ex_face (3 / 4))" "scan_request_valid (ex_face (7 / 8))"
    "scan_request_valid ex_scan"
    by (simp_all add: scan_request_valid_def ex_face_def ex_scan_def within_unit_def)
  have g: "admission_gate (ex_env (ex_at 9 5)) ex_db ex_student (ex_face c) =
     (if c = 0 \<or> c < double_0_6 then Rejected LowConfidence else Proceed)" for c
    using gate_past_ticket_checks [OF ex_ticket_checks(1-4) [OF ex_face_def [of c] ex_envs(1)]]
      ex_ticket_checks(5,6) [OF ex_face_def [of c] ex_envs(1)]
    by (simp add: confidence_too_low_def t ex_face_def)
  have p: "admission_gate (ex_env (ex_at 9 5)) ex_db ex_student (ex_face (3 / 4)) = Proceed"
    "admission_gate (ex_env (ex_at 9 5)) ex_db ex_student (ex_face (7 / 8)) = Proceed"
    by (simp_all add: g double_0_6_def)
  have f: "\<not> isVerified (new_Attendance (ex_env (ex_at 9 5)) ex_student (ex_face (3 / 4)))"
    "isVerified (new_Attendance (ex_env (ex_at 9 5)) ex_student (ex_face (7 / 8)))"
    "isVerified (new_Attendance (ex_env (ex_at 9 5)) ex_student ex_scan)"
    by (simp_all add: new_Attendance_def method_of_def ex_face_def ex_scan_def double_0_8_def)
  have n: "ServerError \<noteq> Accepted a" for a
    by (simp add: ServerError_def Accepted_def)
  have r: "records_for ex_db 42 1 = []"
    by (simp add: records_for_def ex_db_def)
  show ?thesis
    using v p f n r isLate_of_candidate scan_qr_of_proceed [OF v(1) p(1)]
      scan_qr_of_proceed [OF v(2) p(2)] scan_qr_of_proceed [OF v(3) ex_scan_proceeds(1)]
    by (intro conjI)
qed

section \<open>Presentations by token only\<close>

lemma gate_token_only:
  "method_of req = qr_code \<Longrightarrow>
   admission_gate e d (u\<lparr>faceEmbedding := emb\<rparr>) (req\<lparr>body_faceConfidence := fc\<rparr>) = admission_gate e d u req"
  by (auto simp: admission_gate_def method_of_def split: option.splits)

text \<open>
  C9. With the method \<^verbatim>\<open>qr_code\<close> the decision of the admission gate and the
  verified flag of the record built do not depend on the face embedding the subject has stored (any, or
  none) nor on the confidence the request carries: changing both leaves the decision as
  it was and the flag true.  For two such requests that pass the request validation the
  handler replies with the same status code.
\<close>

theorem token_only_ignores_face_inputs:
  assumes "method_of req = qr_code"
  shows "admission_gate e d (u\<lparr>faceEmbedding := emb\<rparr>) (req\<lparr>body_faceConfidence := fc\<rparr>) = admission_gate e d u req \<and>
         isVerified (new_Attendance e (u\<lparr>faceEmbedding := emb\<rparr>)
                       (req\<lparr>body_faceConfidence := fc\<rparr>)) \<and>
         isVerified (new_Attendance e u req) \<and>
         (scan_request_valid req \<and> scan_request_valid (req\<lparr>body_faceConfidence := fc\<rparr>) \<longrightarrow>
            reply_code (fst (scan_qr e d (u\<lparr>faceEmbedding := emb\<rparr>)
                               (req\<lparr>body_faceConfidence := fc\<rparr>))) =
            reply_code (fst (scan_qr e d u req)))"
proof -
  let ?u = "u\<lparr>faceEmbedding := emb\<rparr>" and ?r = "req\<lparr>body_faceConfidence := fc\<rparr>"
  have g: "admission_gate e d ?u ?r = admission_gate e d u req"
    using assms by (rule gate_token_only)
  have v: "isVerified (new_Attendance e ?u ?r)" "isVerified (new_Attendance e u req)"
    using assms by (simp_all add: new_Attendance_def method_of_def)
  have s: "fst (scan_qr e d ?u ?r) = fst (scan_qr e d u req)"
    if "scan_request_valid req" "scan_request_valid ?r"
  proof (cases "admission_gate e d u req")
    case (Rejected r)
    then show ?thesis
      using that g by (simp add: scan_qr_of_rejected)
  next
    case Proceed
    then show ?thesis
      using that g by (simp add: scan_qr_of_proceed)
  qed
  show ?thesis using g v s by simp
qed

theorem token_only_ignores_face_inputs_witness:
  "method_of ex_scan = qr_code \<and>
   admission_gate (ex_env (ex_at 9 5)) ex_db (ex_student\<lparr>faceEmbedding := None\<rparr>)
        (ex_scan\<lparr>body_faceConfidence := Some (JNumber (Finite (1 / 8)))\<rparr>) = Proceed \<and>
   admission_gate (ex_env (ex_at 9 5)) ex_db ex_student ex_scan = Proceed \<and>
   isVerified (new_Attendance (ex_env (ex_at 9 5)) (ex_student\<lparr>faceEmbedding := None\<rparr>)
                 (ex_scan\<lparr>body_faceConfidence := Some (JNumber (Finite (1 / 8)))\<rparr>))"
proof -
  have q: "method_of ex_scan = qr_code"
    by (simp add: method_of_def ex_scan_def)
  have g: "admission_gate (ex_env (ex_at 9 5)) ex_db ex_student ex_scan = Proceed"
    by (rule ex_scan_proceeds)
  show ?thesis
    using q g token_only_ignores_face_inputs
      [OF q, where e = "ex_env (ex_at 9 5)" and d = ex_db and u = ex_student and emb = None
         and fc = "Some (JNumber (Finite (1 / 8)))"]
    by simp
qed

section \<open>The late classification\<close>

text \<open>
  C3. The late classification is not reached by a scanned presentation.  The handler
  builds its record with the ObjectId of the session and saves it before anything has
  populated the reference; the pre-save middleware evaluates \<^verbatim>\<open>isLate\<close> on it, which
  throws, and the save fails.  At 09:20, for a session that starts at 09:00, a valid
  presentation that passes every check gets the server error and no record is stored,
  where the claim has a stored record of status late; at 09:05 likewise, where the
  claim has a record of status present.  On the record of 09:20 with the session
  populated the middleware does set the status to late.
\<close>

theorem late_presentation_is_not_recorded:
  "scan_request_valid ex_scan \<and>
   admission_gate (ex_env (ex_at 9 20)) ex_db ex_student ex_scan = Proceed \<and>
   session (new_Attendance (ex_env (ex_at 9 20)) ex_student ex_scan) = SessionId 1 \<and>
   isLate ex_tz (new_Attendance (ex_env (ex_at 9 20)) ex_student ex_scan) = Inl TypeError \<and>
   scan_qr (ex_env (ex_at 9 20)) ex_db ex_student ex_scan = (ServerError, ex_db) \<and>
   scan_qr (ex_env (ex_at 9 5)) ex_db ex_student ex_scan = (ServerError, ex_db) \<and>
   pre_save ex_tz ex_populated = Inr (ex_populated\<lparr>status := late\<rparr>)"
proof -
  have v: "scan_request_valid ex_scan"
    by (simp add: scan_request_valid_def ex_scan_def)
  have q: "method_of ex_scan = qr_code"
    by (simp add: method_of_def ex_scan_def)
  have g: "admission_gate (ex_env (ex_at 9 20)) ex_db ex_student ex_scan = Proceed"
    by (rule ex_scan_proceeds)
  have s: "session (new_Attendance (ex_env (ex_at 9 20)) ex_student ex_scan) = SessionId 1"
    by (simp add: new_Attendance_def ex_scan_def)
  have p: "pre_save ex_tz ex_populated = Inr (ex_populated\<lparr>status := late\<rparr>)"
    by (simp add: pre_save_populated [of _ ex_session] ex_populated_def new_Attendance_def
        ex_defs date_defs)
  show ?thesis
    using v g s p isLate_of_candidate scan_qr_of_proceed [OF v g]
      scan_qr_of_proceed [OF v ex_scan_proceeds(1)]
    by simp
qed

section \<open>The two writes of an admission\<close>




section \<open>One record for a subject and a ticket\<close>

lemma attendance_key_stored:
  "attendance_key (stored a) = attendance_key a"
  by (cases "session a") (simp_all add: attendance_key_def stored_def)

lemma pre_save_key:
  "pre_save z a = Inr a' \<Longrightarrow> attendance_key a' = attendance_key a"
  by (auto simp: pre_save_def attendance_key_def split: sum.splits if_splits)

lemma Attendance_save_unique:
  "unique_index d \<Longrightarrow> unique_index (snd (Attendance_save z r d a))"
  by (auto simp: Attendance_save_def unique_index_def attendance_key_stored image_iff
      split: sum.splits)

lemma Session_inc_attendances:
  "attendances (snd (Session_inc r d sid n)) = attendances d"
  by (simp add: Session_inc_def)

lemma admit_unique:
  "unique_index d \<Longrightarrow> unique_index (snd (admit e d sid a))"
  using Attendance_save_unique [of d "tz e" "save_rejects e" a]
  by (auto simp: admit_def unique_index_def Session_inc_def split: prod.splits sum.splits if_splits)

lemma scan_qr_unique:
  "unique_index d \<Longrightarrow> unique_index (snd (scan_qr e d u req))"
  using admit_unique [of d e "sessionId req" "new_Attendance e u req"]
  by (auto simp: scan_qr_def split: decision.splits prod.splits sum.splits)

lemma create_session_attendances:
  "attendances (snd (create_session e d u req)) = attendances d"
  by (auto simp: create_session_def Session_insert_def Let_def split: sum.splits option.splits)

lemma regenerate_qr_attendances:
  "attendances (snd (regenerate_qr e d u sid)) = attendances d"
  by (auto simp: regenerate_qr_def Session_set_qrToken_def Let_def split: option.splits sum.splits)

lemma delete_session_unique:
  "unique_index d \<Longrightarrow> unique_index (snd (delete_session e d u sid))"
  by (auto simp: delete_session_def unique_index_def distinct_map_filter split: option.splits)

lemma key_status_update:
  "attendance_key \<circ>
     (\<lambda>a. if P a then (case st of None \<Rightarrow> a | Some v \<Rightarrow> a\<lparr>status := v\<rparr>) else a) =
   attendance_key"
  by (auto simp: fun_eq_iff attendance_key_def split: option.splits)

lemma update_attendance_unique:
  "unique_index d \<Longrightarrow> unique_index (snd (update_attendance d u aid st))"
  by (auto simp: update_attendance_def unique_index_def Let_def key_status_update
      split: option.splits)

lemma delete_attendance_unique:
  "unique_index d \<Longrightarrow> unique_index (snd (delete_attendance d u aid))"
  by (auto simp: delete_attendance_def unique_index_def Let_def Session_inc_def
      distinct_map_filter split: option.splits)

lemma handle_unique:
  assumes "unique_index d"
  shows "unique_index (snd (handle c d))"
proof (cases c)
  case (CreateSession e u req)
  then show ?thesis
    using assms by (simp add: unique_index_def create_session_attendances)
next
  case (RegenerateQr e u sid)
  then show ?thesis
    using assms by (simp add: unique_index_def regenerate_qr_attendances)
next
  case (DeleteSession e u sid)
  then show ?thesis
    using assms by (simp add: delete_session_unique)
next
  case (ScanQr e u req)
  then show ?thesis
    using assms by (simp add: scan_qr_unique)
next
  case (UpdateAttendance u aid st)
  then show ?thesis
    using assms by (simp add: update_attendance_unique)
next
  case (DeleteAttendance u aid)
  then show ?thesis
    using assms by (simp add: delete_attendance_unique)
qed

lemma run_unique:
  "unique_index d \<Longrightarrow> unique_index (run cs d)"
  by (induction cs arbitrary: d) (simp_all add: handle_unique)

lemma distinct_key_filter:
  "distinct (map f xs) \<Longrightarrow> length (filter (\<lambda>x. f x = k) xs) \<le> 1"
  by (induction xs) (auto simp: filter_empty_conv image_iff)

lemma records_for_key:
  "records_for d stu sid = filter (\<lambda>a. attendance_key a = (stu, Some sid)) (attendances d)"
  by (simp add: records_for_def attendance_key_def)

lemma unique_index_records:
  "unique_index d \<Longrightarrow> length (records_for d stu sid) \<le> 1"
  using distinct_key_filter [of attendance_key "attendances d" "(stu, Some sid)"]
  by (simp add: records_for_key unique_index_def)

lemma distinct_key_find:
  "distinct (map f xs) \<Longrightarrow> find (\<lambda>x. f x = k) xs = Some y \<Longrightarrow> filter (\<lambda>x. f x = k) xs = [y]"
  by (induction xs) (auto simp: filter_empty_conv image_iff split: if_splits)

lemma findOne_records:
  "unique_index d \<Longrightarrow> Attendance_findOne d stu sid = Some existing \<Longrightarrow>
   records_for d stu sid = [existing]"
  using distinct_key_find [of attendance_key "attendances d" "(stu, Some sid)" existing]
  by (simp add: records_for_key unique_index_def Attendance_findOne_def attendance_key_def)

lemma gate_duplicate:
  "Attendance_findOne d (user_id u) (sessionId req) = Some existing \<Longrightarrow>
   \<exists>r. admission_gate e d u req = Rejected r \<and>
       (InvalidTicket r \<or> r = NotStarted \<or> r = DuplicateAdmission existing)"
  by (auto simp: admission_gate_def InvalidTicket_def NotStarted_def DuplicateAdmission_def
      split: option.splits)

lemma gate_duplicate_past_ticket_checks:
  "Attendance_findOne d (user_id u) (sessionId req) = Some existing \<Longrightarrow>
   Session_findOne d (sessionId req) (token req) = Some s \<Longrightarrow>
   clock1 e \<le> expiresAt s \<Longrightarrow> \<not> Date_less (Some (clock2 e)) (sessionStart (tz e) s) \<Longrightarrow>
   admission_gate e d u req = Rejected (DuplicateAdmission existing)"
  by (simp add: admission_gate_def DuplicateAdmission_def)

lemma save_duplicate:
  assumes "Attendance_findOne d (student a) i = Some existing"
    and "session_oid (session a) = Some i"
  shows "\<exists>err. Attendance_save z r d a = (Inl err, d)"
proof -
  have "existing \<in> set (attendances d)" "attendance_key existing = (student a, Some i)"
    using assms(1) by (auto simp: Attendance_findOne_def attendance_key_def find_Some_iff)
  then have "\<exists>b \<in> set (attendances d). attendance_key b = attendance_key a'"
    if "pre_save z a = Inr a'" for a'
    using pre_save_key [OF that] assms(2) by (auto simp: attendance_key_def)
  then show ?thesis
    by (auto simp: Attendance_save_def split: sum.splits)
qed

lemma ex_marked_facts:
  "unique_index ex_marked"
  "Attendance_findOne ex_marked (user_id ex_student) (sessionId ex_scan) =
     Some (stored (ex_populated\<lparr>status := late\<rparr>))"
  "scan_request_valid ex_scan"
  "Session_findOne ex_marked (sessionId ex_scan) (token ex_scan) =
     Some (ex_session\<lparr>attendanceCount := 1\<rparr>)"
  "clock1 (ex_env (ex_at 9 30)) \<le> expiresAt (ex_session\<lparr>attendanceCount := 1\<rparr>)"
  "\<not> Date_less (Some (clock2 (ex_env (ex_at 9 30))))
       (sessionStart (tz (ex_env (ex_at 9 30))) (ex_session\<lparr>attendanceCount := 1\<rparr>))"
  "student ex_populated = user_id ex_student"
  "session_oid (session ex_populated) = Some (sessionId ex_scan)"
  by (simp_all add: unique_index_def Attendance_findOne_def Session_findOne_def
      scan_request_valid_def sessionStart_def stored_def ex_marked_def ex_populated_def
      new_Attendance_def ex_defs date_defs)

text \<open>
  C1. From any store the unique index admits, every run of handler calls, in whatever
  order they arrive, leaves at most one attendance record for a subject and a ticket;
  a save keeps the index, and a save for a pair that has a record fails and stores
  nothing.  A presentation for a pair that has a record leaves the store as it was and
  is never accepted: the pair has exactly that one record, and once the presentation is
  past the ticket and not-started checks the reply is the duplicate admission that
  carries it.
\<close>

theorem one_record_per_pair:
  assumes "unique_index d"
  shows "length (records_for (run cs d) stu sid) \<le> 1 \<and>
     unique_index (snd (Attendance_save z r d a)) \<and>
     (\<forall>existing i. Attendance_findOne d (student a) i = Some existing \<and>
                   session_oid (session a) = Some i \<longrightarrow>
         (\<exists>err. Attendance_save z r d a = (Inl err, d))) \<and>
     (\<forall>existing. Attendance_findOne d (user_id u) (sessionId req) = Some existing \<longrightarrow>
         records_for d (user_id u) (sessionId req) = [existing] \<and>
         snd (scan_qr e d u req) = d \<and>
         (\<forall>b. fst (scan_qr e d u req) \<noteq> Accepted b) \<and>
         (\<forall>s. scan_request_valid req \<and>
              Session_findOne d (sessionId req) (token req) = Some s \<and>
              clock1 e \<le> expiresAt s \<and> \<not> Date_less (Some (clock2 e)) (sessionStart (tz e) s) \<longrightarrow>
              scan_qr e d u req = (DuplicateAdmission existing, d)))"
proof -
  have a: "length (records_for (run cs d) stu sid) \<le> 1"
    using assms by (intro unique_index_records run_unique)
  have b: "unique_index (snd (Attendance_save z r d a))"
    using assms by (rule Attendance_save_unique)
  have c: "\<exists>err. Attendance_save z r d a = (Inl err, d)"
    if "Attendance_findOne d (student a) i = Some existing" "session_oid (session a) = Some i"
    for existing i
    using that by (rule save_duplicate)
  have d: "records_for d (user_id u) (sessionId req) = [existing] \<and>
         snd (scan_qr e d u req) = d \<and>
         (\<forall>b. fst (scan_qr e d u req) \<noteq> Accepted b) \<and>
         (\<forall>s. scan_request_valid req \<and>
              Session_findOne d (sessionId req) (token req) = Some s \<and>
              clock1 e \<le> expiresAt s \<and> \<not> Date_less (Some (clock2 e)) (sessionStart (tz e) s) \<longrightarrow>
              scan_qr e d u req = (DuplicateAdmission existing, d))"
    if f: "Attendance_findOne d (user_id u) (sessionId req) = Some existing" for existing
  proof -
    obtain rj where g: "admission_gate e d u req = Rejected rj"
      and k: "InvalidTicket rj \<or> rj = NotStarted \<or> rj = DuplicateAdmission existing"
      using gate_duplicate [OF f] by blast
    have s: "scan_qr e d u req = (if scan_request_valid req then rj else Errors, d)"
      using g by (simp add: scan_qr_def)
    have n: "rj \<noteq> Accepted b" for b
      using k by (auto simp: InvalidTicket_def NotStarted_def DuplicateAdmission_def Accepted_def)
    have "scan_qr e d u req = (DuplicateAdmission existing, d)"
      if "scan_request_valid req" "Session_findOne d (sessionId req) (token req) = Some s"
        "clock1 e \<le> expiresAt s" "\<not> Date_less (Some (clock2 e)) (sessionStart (tz e) s)" for s
      using gate_duplicate_past_ticket_checks [OF f that(2-4)] that(1)
      by (simp add: scan_qr_def)
    then show ?thesis
      using findOne_records [OF assms f] s n by (auto simp: Accepted_def)
  qed
  show ?thesis using a b c d by blast
qed

theorem one_record_per_pair_witness:
  "unique_index ex_marked \<and>
   Attendance_findOne ex_marked (user_id ex_student) (sessionId ex_scan) =
     Some (stored (ex_populated\<lparr>status := late\<rparr>)) \<and>
   records_for ex_marked (user_id ex_student) (sessionId ex_scan) =
     [stored (ex_populated\<lparr>status := late\<rparr>)] \<and>
   scan_qr (ex_env (ex_at 9 30)) ex_marked ex_student ex_scan =
     (DuplicateAdmission (stored (ex_populated\<lparr>status := late\<rparr>)), ex_marked) \<and>
   length (records_for
             (run [ScanQr (ex_env (ex_at 9 30)) ex_student ex_scan,
                   ScanQr (ex_env (ex_at 9 31)) ex_student (ex_face (7 / 8))] ex_marked)
             (user_id ex_student) (sessionId ex_scan)) \<le> 1 \<and>
   length (records_for
             (run [ScanQr (ex_env (ex_at 9 31)) ex_student (ex_face (7 / 8)),
                   ScanQr (ex_env (ex_at 9 30)) ex_student ex_scan] ex_marked)
             (user_id ex_student) (sessionId ex_scan)) \<le> 1 \<and>
   (\<exists>err. Attendance_save ex_tz False ex_marked ex_populated = (Inl err, ex_marked))"
proof -
  note h = ex_marked_facts
  note t = one_record_per_pair [OF h(1)]
  have a: "records_for ex_marked (user_id ex_student) (sessionId ex_scan) =
             [stored (ex_populated\<lparr>status := late\<rparr>)] \<and>
           scan_qr (ex_env (ex_at 9 30)) ex_marked ex_student ex_scan =
             (DuplicateAdmission (stored (ex_populated\<lparr>status := late\<rparr>)), ex_marked)"
    using t [where u = ex_student and req = ex_scan and e = "ex_env (ex_at 9 30)"] h(2-6)
    by blast
  have b: "\<exists>err. Attendance_save ex_tz False ex_marked ex_populated = (Inl err, ex_marked)"
    using t [where a = ex_populated and z = ex_tz and r = False] h(2,7,8) by metis
  have c: "length (records_for
             (run [ScanQr (ex_env (ex_at 9 30)) ex_student ex_scan,
                   ScanQr (ex_env (ex_at 9 31)) ex_student (ex_face (7 / 8))] ex_marked)
             (user_id ex_student) (sessionId ex_scan)) \<le> 1"
    by (rule t [THEN conjunct1])
  have d: "length (records_for
             (run [ScanQr (ex_env (ex_at 9 31)) ex_student (ex_face (7 / 8)),
                   ScanQr (ex_env (ex_at 9 30)) ex_student ex_scan] ex_marked)
             (user_id ex_student) (sessionId ex_scan)) \<le> 1"
    by (rule t [THEN conjunct1])
  show ?thesis
    using h(1,2) a b c d by (intro conjI) simp_all
qed

end
